theory Spec2Isabelle
  imports Main "HOL-Library.Sublist"
begin

section \<open>Upstream data: the Bot API records the backend reads\<close>

text \<open>
  The backend (backend/app/main.py) handles the service's JSON objects as Python dicts and
  reads them with \<^verbatim>\<open>dict.get\<close>. A dict is modelled as a record with one optional
  field per key the code reads: \<open>None\<close> is "key missing", \<open>Some v\<close> is "key present
  with value v". The values carry the types the Bot API documents for them (strings,
  integers, booleans, nested objects); replies whose values have other JSON types, and
  JSON \<^verbatim>\<open>null\<close> values, are outside this model. A Python string is a \<open>string\<close>, one
  \<open>char\<close> per character.
\<close>

record sticker =
  st_custom_emoji_id :: "string option"
  st_file_id :: "string option"
  st_set_name :: "string option"
  st_file_unique_id :: "string option"
  st_emoji :: "string option"
  st_width :: "int option"
  st_height :: "int option"
  st_is_animated :: "bool option"
  st_is_video :: "bool option"
  st_needs_repainting :: "bool option"

record photo_size =
  ps_file_id :: "string option"

text \<open>
  The sticker-set dict is the one dict whose truth value the code tests
  (\<^verbatim>\<open>if not sticker_set\<close>), so besides the keys that are read it records the names of
  any other keys it carries: the dict is empty, and falsy, when no key at all is present.
\<close>

record sticker_set =
  ss_name :: "string option"
  ss_title :: "string option"
  ss_sticker_type :: "string option"
  ss_stickers :: "sticker list option"
  ss_thumbnail :: "photo_size option"
  ss_other_keys :: "string list"

record tg_file =
  tf_file_path :: "string option"

section \<open>Pydantic models\<close>

record EmojiData =
  id' :: string
  short_name :: string
  emoji :: "string option"
  file_type :: string
  file_url :: string
  thumbnail_url :: "string option"
  width :: int
  height :: int
  is_animated :: bool
  is_video :: bool
  set_name :: "string option"
  needs_repainting :: bool

record EmojiPack =
  name :: string
  title :: string
  sticker_type :: string
  stickers :: "EmojiData list"
  thumbnail :: "string option"

section \<open>The transport and the requests sent over it\<close>

text \<open>
  What \<^verbatim>\<open>await self.client.post(url, json=...)\<close> followed by
  \<^verbatim>\<open>response.json()\<close> can produce: the post raises (connection error, timeout), the
  body is not JSON so \<^verbatim>\<open>json()\<close> raises, the body is JSON but not an object so
  \<^verbatim>\<open>data.get\<close> raises, or the body is an object, of which the code reads the truth
  value of \<^verbatim>\<open>"ok"\<close> and the value under \<^verbatim>\<open>"result"\<close> when that key is present.
\<close>

datatype 'r response = PostRaises | JsonRaises | NotAnObject | Data bool "'r option"

datatype request =
    GetStickerSet string
  | GetCustomEmojiStickers "string list"
  | GetFile "string option"

type_synonym trace = "request list"

text \<open>
  The remote service is not under the program's control and may answer the same request
  differently at different times: each endpoint's answer is a function of the requests
  issued so far and of the request's payload.
\<close>

record upstream =
  getStickerSet :: "trace \<Rightarrow> string \<Rightarrow> sticker_set response"
  getCustomEmojiStickers :: "trace \<Rightarrow> string list \<Rightarrow> sticker list response"
  getFile :: "trace \<Rightarrow> string option \<Rightarrow> tg_file response"

datatype exn = TransportError | JSONDecodeError | AttributeError | KeyError

datatype failure = HTTPException int string | Unhandled exn

section \<open>class TelegramAPI\<close>

record TelegramAPI =
  token :: string
  client :: upstream

text \<open>
  Each method is the body of its \<^verbatim>\<open>try\<close> block, which may raise, wrapped in the
  \<^verbatim>\<open>except Exception\<close> handler that returns the degraded value. A method takes the
  trace of requests issued so far and returns it extended by its own request. The result
  is typed \<open>exn + _\<close> as that of any Python call.
\<close>

definition get_sticker_set_try :: "TelegramAPI \<Rightarrow> string \<Rightarrow> trace \<Rightarrow> exn + sticker_set option" where
  "get_sticker_set_try self nm tr =
     (case getStickerSet (client self) tr nm of
        PostRaises \<Rightarrow> Inl TransportError
      | JsonRaises \<Rightarrow> Inl JSONDecodeError
      | NotAnObject \<Rightarrow> Inl AttributeError
      | Data ok result \<Rightarrow> if ok then Inr result else Inr None)"

definition get_sticker_set ::
  "TelegramAPI \<Rightarrow> string \<Rightarrow> trace \<Rightarrow> (exn + sticker_set option) \<times> trace" where
  "get_sticker_set self nm tr =
     ((case get_sticker_set_try self nm tr of Inl e \<Rightarrow> Inr None | Inr r \<Rightarrow> Inr r),
      tr @ [GetStickerSet nm])"

definition get_custom_emoji_stickers_try ::
  "TelegramAPI \<Rightarrow> string list \<Rightarrow> trace \<Rightarrow> exn + sticker list" where
  "get_custom_emoji_stickers_try self custom_emoji_ids tr =
     (case getCustomEmojiStickers (client self) tr custom_emoji_ids of
        PostRaises \<Rightarrow> Inl TransportError
      | JsonRaises \<Rightarrow> Inl JSONDecodeError
      | NotAnObject \<Rightarrow> Inl AttributeError
      | Data ok result \<Rightarrow>
          if ok then Inr (case result of None \<Rightarrow> [] | Some l \<Rightarrow> l) else Inr [])"

definition get_custom_emoji_stickers ::
  "TelegramAPI \<Rightarrow> string list \<Rightarrow> trace \<Rightarrow> (exn + sticker list) \<times> trace" where
  "get_custom_emoji_stickers self custom_emoji_ids tr =
     ((case get_custom_emoji_stickers_try self custom_emoji_ids tr of
         Inl e \<Rightarrow> Inr [] | Inr r \<Rightarrow> Inr r),
      tr @ [GetCustomEmojiStickers custom_emoji_ids])"

definition file_download_url :: "string \<Rightarrow> string \<Rightarrow> string" where
  "file_download_url tok file_path = ''https://api.telegram.org/file/bot'' @ tok @ ''/'' @ file_path"

definition get_file_try :: "TelegramAPI \<Rightarrow> string option \<Rightarrow> trace \<Rightarrow> exn + string option" where
  "get_file_try self file_id tr =
     (case getFile (client self) tr file_id of
        PostRaises \<Rightarrow> Inl TransportError
      | JsonRaises \<Rightarrow> Inl JSONDecodeError
      | NotAnObject \<Rightarrow> Inl AttributeError
      | Data ok result \<Rightarrow>
          if ok then
            (case result of
               None \<Rightarrow> Inl KeyError
             | Some f \<Rightarrow>
                 (case tf_file_path f of
                    None \<Rightarrow> Inr None
                  | Some file_path \<Rightarrow>
                      if file_path \<noteq> [] then Inr (Some (file_download_url (token self) file_path))
                      else Inr None))
          else Inr None)"

definition get_file ::
  "TelegramAPI \<Rightarrow> string option \<Rightarrow> trace \<Rightarrow> (exn + string option) \<times> trace" where
  "get_file self file_id tr =
     ((case get_file_try self file_id tr of Inl e \<Rightarrow> Inr None | Inr r \<Rightarrow> Inr r),
      tr @ [GetFile file_id])"

text \<open>
  \<^verbatim>\<open>lifespan\<close>: the global \<^verbatim>\<open>telegram_api\<close> is created only when \<^verbatim>\<open>BOT_TOKEN\<close> is a
  non-empty string, and stays \<^verbatim>\<open>None\<close> otherwise.
\<close>

definition lifespan :: "string \<Rightarrow> upstream \<Rightarrow> TelegramAPI option" where
  "lifespan BOT_TOKEN transport =
     (if BOT_TOKEN \<noteq> [] then Some \<lparr>token = BOT_TOKEN, client = transport\<rparr> else None)"

section \<open>Helper functions\<close>

subsection \<open>extract_pack_name\<close>

text \<open>
  \<^verbatim>\<open>re.search(r'(?:https?://)?t\.me/addemoji/([a-zA-Z0-9_]+)', url_or_name)\<close>.
  \<open>name_char\<close> is the class \<^verbatim>\<open>[a-zA-Z0-9_]\<close>. \<open>match_name\<close> matches
  \<^verbatim>\<open>t\.me/addemoji/([a-zA-Z0-9_]+)\<close> at the start of a string and returns group 1; the
  group is the last item of the pattern and greedy, so it takes the longest run.
  \<open>match_at\<close> matches the whole pattern at the start of a string, trying the
  alternatives of the two greedy optionals in the matcher's backtracking order (with
  \<^verbatim>\<open>https://\<close>, with \<^verbatim>\<open>http://\<close>, without a scheme). \<open>re_search\<close> tries every start
  position from the left and returns the group of the first match.
\<close>

definition name_char :: "char \<Rightarrow> bool" where
  "name_char c =
     (let n = (of_char c :: nat)
      in (97 \<le> n \<and> n \<le> 122) \<or> (65 \<le> n \<and> n \<le> 90) \<or> (48 \<le> n \<and> n \<le> 57) \<or> n = 95)"

definition match_name :: "string \<Rightarrow> string option" where
  "match_name s =
     (if prefix ''t.me/addemoji/'' s
      then (let g = takeWhile name_char (drop 14 s) in if g = [] then None else Some g)
      else None)"

definition match_at :: "string \<Rightarrow> string option" where
  "match_at s =
     (case (if prefix ''https://'' s then match_name (drop 8 s) else None) of
        Some g \<Rightarrow> Some g
      | None \<Rightarrow>
          (case (if prefix ''http://'' s then match_name (drop 7 s) else None) of
             Some g \<Rightarrow> Some g
           | None \<Rightarrow> match_name s))"

fun re_search :: "string \<Rightarrow> string option" where
  "re_search [] = match_at []"
| "re_search (c # cs) = (case match_at (c # cs) of Some g \<Rightarrow> Some g | None \<Rightarrow> re_search cs)"

definition extract_pack_name :: "string \<Rightarrow> string" where
  "extract_pack_name url_or_name =
     (case re_search url_or_name of Some g \<Rightarrow> g | None \<Rightarrow> url_or_name)"

subsection \<open>sticker_to_emoji_data\<close>

definition truthy :: "bool option \<Rightarrow> bool" where
  "truthy b = (b = Some True)"

definition get_or :: "'a option \<Rightarrow> 'a \<Rightarrow> 'a" where
  "get_or v d = (case v of None \<Rightarrow> d | Some x \<Rightarrow> x)"

definition sticker_to_emoji_data :: "sticker \<Rightarrow> string \<Rightarrow> EmojiData" where
  "sticker_to_emoji_data sticker furl =
     (let ftype = (if truthy (st_is_animated sticker) then ''tgs''
                   else if truthy (st_is_video sticker) then ''webm''
                   else ''png'')
      in \<lparr> id' = get_or (st_custom_emoji_id sticker) (get_or (st_file_id sticker) []),
           short_name = get_or (st_set_name sticker) ''emoji'' @ ''_''
                          @ take 8 (get_or (st_file_unique_id sticker) []),
           emoji = st_emoji sticker,
           file_type = ftype,
           file_url = furl,
           thumbnail_url = None,
           width = get_or (st_width sticker) 512,
           height = get_or (st_height sticker) 512,
           is_animated = get_or (st_is_animated sticker) False,
           is_video = get_or (st_is_video sticker) False,
           set_name = st_set_name sticker,
           needs_repainting = get_or (st_needs_repainting sticker) False \<rparr>)"

section \<open>API endpoints\<close>

text \<open>
  \<^verbatim>\<open>not sticker_set\<close>: true for \<^verbatim>\<open>None\<close> and for the empty dict.
\<close>

definition dict_empty :: "sticker_set \<Rightarrow> bool" where
  "dict_empty d =
     (ss_name d = None \<and> ss_title d = None \<and> ss_sticker_type d = None
      \<and> ss_stickers d = None \<and> ss_thumbnail d = None \<and> ss_other_keys d = [])"

definition not_sticker_set :: "sticker_set option \<Rightarrow> bool" where
  "not_sticker_set r = (case r of None \<Rightarrow> True | Some d \<Rightarrow> dict_empty d)"

text \<open>
  The loop \<^verbatim>\<open>for sticker in sticker_set.get("stickers", [])\<close> of \<^verbatim>\<open>get_pack\<close> and
  \<^verbatim>\<open>get_manifest\<close>; the third argument is the list \<^verbatim>\<open>stickers\<close> being appended to.
  \<^verbatim>\<open>await telegram_api.get_file(file_id) or ""\<close> is the URL, or the empty string when
  \<^verbatim>\<open>get_file\<close> returned \<^verbatim>\<open>None\<close>.
\<close>

fun process_stickers ::
  "TelegramAPI \<Rightarrow> sticker list \<Rightarrow> EmojiData list \<Rightarrow> trace \<Rightarrow> (exn + EmojiData list) \<times> trace" where
  "process_stickers api [] acc tr = (Inr acc, tr)"
| "process_stickers api (sticker # rest) acc tr =
     (case get_file api (st_file_id sticker) tr of
        (Inl e, tr') \<Rightarrow> (Inl e, tr')
      | (Inr r, tr') \<Rightarrow>
          (let furl = get_or r [];
               emoji_data = sticker_to_emoji_data sticker furl
           in process_stickers api rest (acc @ [emoji_data]) tr'))"

definition get_pack ::
  "TelegramAPI option \<Rightarrow> string \<Rightarrow> trace \<Rightarrow> (failure + EmojiPack) \<times> trace" where
  "get_pack telegram_api url tr =
     (case telegram_api of
        None \<Rightarrow> (Inl (HTTPException 503 ''Telegram API not configured''), tr)
      | Some api \<Rightarrow>
          (let pack_name = extract_pack_name url
           in case get_sticker_set api pack_name tr of
                (Inl e, tr1) \<Rightarrow> (Inl (Unhandled e), tr1)
              | (Inr r, tr1) \<Rightarrow>
                  if not_sticker_set r
                  then (Inl (HTTPException 404 (''Pack not found: '' @ pack_name)), tr1)
                  else
                    (case r of
                       None \<Rightarrow> (Inl (Unhandled AttributeError), tr1)
                     | Some d \<Rightarrow>
                         (case process_stickers api (get_or (ss_stickers d) []) [] tr1 of
                            (Inl e, tr2) \<Rightarrow> (Inl (Unhandled e), tr2)
                          | (Inr items, tr2) \<Rightarrow>
                              (Inr \<lparr> name = get_or (ss_name d) pack_name,
                                     title = get_or (ss_title d) pack_name,
                                     sticker_type = get_or (ss_sticker_type d) ''custom_emoji'',
                                     stickers = items,
                                     thumbnail = (case ss_thumbnail d of
                                                    None \<Rightarrow> None
                                                  | Some t \<Rightarrow> ps_file_id t) \<rparr>,
                               tr2)))))"

definition get_emoji ::
  "TelegramAPI option \<Rightarrow> string \<Rightarrow> trace \<Rightarrow> (failure + EmojiData) \<times> trace" where
  "get_emoji telegram_api emoji_id tr =
     (case telegram_api of
        None \<Rightarrow> (Inl (HTTPException 503 ''Telegram API not configured''), tr)
      | Some api \<Rightarrow>
          (case get_custom_emoji_stickers api [emoji_id] tr of
             (Inl e, tr1) \<Rightarrow> (Inl (Unhandled e), tr1)
           | (Inr [], tr1) \<Rightarrow> (Inl (HTTPException 404 (''Emoji not found: '' @ emoji_id)), tr1)
           | (Inr (sticker # _), tr1) \<Rightarrow>
               (case get_file api (st_file_id sticker) tr1 of
                  (Inl e, tr2) \<Rightarrow> (Inl (Unhandled e), tr2)
                | (Inr r, tr2) \<Rightarrow> (Inr (sticker_to_emoji_data sticker (get_or r [])), tr2))))"

definition get_manifest ::
  "TelegramAPI option \<Rightarrow> string \<Rightarrow> trace \<Rightarrow> (failure + EmojiPack) \<times> trace" where
  "get_manifest telegram_api pack_id tr =
     (case telegram_api of
        None \<Rightarrow> (Inl (HTTPException 503 ''Telegram API not configured''), tr)
      | Some api \<Rightarrow>
          (case get_sticker_set api pack_id tr of
             (Inl e, tr1) \<Rightarrow> (Inl (Unhandled e), tr1)
           | (Inr r, tr1) \<Rightarrow>
               if not_sticker_set r
               then (Inl (HTTPException 404 (''Pack not found: '' @ pack_id)), tr1)
               else
                 (case r of
                    None \<Rightarrow> (Inl (Unhandled AttributeError), tr1)
                  | Some d \<Rightarrow>
                      (case process_stickers api (get_or (ss_stickers d) []) [] tr1 of
                         (Inl e, tr2) \<Rightarrow> (Inl (Unhandled e), tr2)
                       | (Inr items, tr2) \<Rightarrow>
                           (Inr \<lparr> name = get_or (ss_name d) pack_id,
                                  title = get_or (ss_title d) pack_id,
                                  sticker_type = get_or (ss_sticker_type d) ''custom_emoji'',
                                  stickers = items,
                                  thumbnail = None \<rparr>,
                            tr2)))))"

subsection \<open>get_pack by name\<close>

text \<open>
  \<^verbatim>\<open>get_pack\<close> without its line 219: lines 216 to 217 and 221 to 241 as a function of the
  variable \<^verbatim>\<open>pack_name\<close>. It names what \<^verbatim>\<open>get_pack\<close> does once its input is normalised, so
  that \<^verbatim>\<open>get_manifest\<close>, which has no such line, can be compared with it on every identifier.
\<close>

definition get_pack_named ::
  "TelegramAPI option \<Rightarrow> string \<Rightarrow> trace \<Rightarrow> (failure + EmojiPack) \<times> trace" where
  "get_pack_named telegram_api pack_name tr =
     (case telegram_api of
        None \<Rightarrow> (Inl (HTTPException 503 ''Telegram API not configured''), tr)
      | Some api \<Rightarrow>
          (case get_sticker_set api pack_name tr of
             (Inl e, tr1) \<Rightarrow> (Inl (Unhandled e), tr1)
           | (Inr r, tr1) \<Rightarrow>
               if not_sticker_set r
               then (Inl (HTTPException 404 (''Pack not found: '' @ pack_name)), tr1)
               else
                 (case r of
                    None \<Rightarrow> (Inl (Unhandled AttributeError), tr1)
                  | Some d \<Rightarrow>
                      (case process_stickers api (get_or (ss_stickers d) []) [] tr1 of
                         (Inl e, tr2) \<Rightarrow> (Inl (Unhandled e), tr2)
                       | (Inr items, tr2) \<Rightarrow>
                           (Inr \<lparr> name = get_or (ss_name d) pack_name,
                                  title = get_or (ss_title d) pack_name,
                                  sticker_type = get_or (ss_sticker_type d) ''custom_emoji'',
                                  stickers = items,
                                  thumbnail = (case ss_thumbnail d of
                                                 None \<Rightarrow> None
                                               | Some t \<Rightarrow> ps_file_id t) \<rparr>,
                            tr2)))))"

subsection \<open>A pack reply outside the documented shape\<close>

text \<open>
  The records of the first section cannot hold an ok reply whose \<^verbatim>\<open>"result"\<close> is not the
  documented object. \<^verbatim>\<open>get_sticker_set\<close> returns whatever is under \<^verbatim>\<open>"result"\<close> without
  looking at it (line 73), so such a value reaches \<^verbatim>\<open>get_pack\<close>. What follows repeats
  \<^verbatim>\<open>get_sticker_set\<close> and \<^verbatim>\<open>get_pack\<close> for a service whose \<^verbatim>\<open>"result"\<close> is the documented
  object (\<open>Inl\<close>) or a JSON string (\<open>Inr\<close>). A string is falsy when empty (line 223), and
  \<^verbatim>\<open>sticker_set.get\<close> on a string raises \<^verbatim>\<open>AttributeError\<close> (line 228), outside every
  \<^verbatim>\<open>try\<close>. The service is given as the answers of its \<^verbatim>\<open>getStickerSet\<close> endpoint; the file
  requests go to the client of the \<^verbatim>\<open>TelegramAPI\<close> as before. Other shapes (numbers, arrays
  of non-objects, \<^verbatim>\<open>null\<close> fields inside a record) are not modelled.
\<close>

definition get_sticker_set_any ::
  "(trace \<Rightarrow> string \<Rightarrow> (sticker_set + string) response) \<Rightarrow> string \<Rightarrow> trace
     \<Rightarrow> (exn + (sticker_set + string) option) \<times> trace" where
  "get_sticker_set_any post nm tr =
     ((case (case post tr nm of
               PostRaises \<Rightarrow> Inl TransportError
             | JsonRaises \<Rightarrow> Inl JSONDecodeError
             | NotAnObject \<Rightarrow> Inl AttributeError
             | Data ok result \<Rightarrow> if ok then Inr result else Inr None) of
         Inl e \<Rightarrow> Inr None
       | Inr r \<Rightarrow> Inr r),
      tr @ [GetStickerSet nm])"

definition not_value :: "(sticker_set + string) option \<Rightarrow> bool" where
  "not_value r =
     (case r of None \<Rightarrow> True | Some (Inl d) \<Rightarrow> dict_empty d | Some (Inr s) \<Rightarrow> s = [])"

definition get_pack_any ::
  "TelegramAPI option \<Rightarrow> (trace \<Rightarrow> string \<Rightarrow> (sticker_set + string) response) \<Rightarrow> string \<Rightarrow> trace
     \<Rightarrow> (failure + EmojiPack) \<times> trace" where
  "get_pack_any telegram_api post url tr =
     (case telegram_api of
        None \<Rightarrow> (Inl (HTTPException 503 ''Telegram API not configured''), tr)
      | Some api \<Rightarrow>
          (let pack_name = extract_pack_name url
           in case get_sticker_set_any post pack_name tr of
                (Inl e, tr1) \<Rightarrow> (Inl (Unhandled e), tr1)
              | (Inr r, tr1) \<Rightarrow>
                  if not_value r
                  then (Inl (HTTPException 404 (''Pack not found: '' @ pack_name)), tr1)
                  else
                    (case r of
                       None \<Rightarrow> (Inl (Unhandled AttributeError), tr1)
                     | Some (Inr s) \<Rightarrow> (Inl (Unhandled AttributeError), tr1)
                     | Some (Inl d) \<Rightarrow>
                         (case process_stickers api (get_or (ss_stickers d) []) [] tr1 of
                            (Inl e, tr2) \<Rightarrow> (Inl (Unhandled e), tr2)
                          | (Inr items, tr2) \<Rightarrow>
                              (Inr \<lparr> name = get_or (ss_name d) pack_name,
                                     title = get_or (ss_title d) pack_name,
                                     sticker_type = get_or (ss_sticker_type d) ''custom_emoji'',
                                     stickers = items,
                                     thumbnail = (case ss_thumbnail d of
                                                    None \<Rightarrow> None
                                                  | Some t \<Rightarrow> ps_file_id t) \<rparr>,
                               tr2)))))"

section \<open>Notions used to state the properties\<close>

text \<open>
  The name captured at the leftmost occurrence of \<^verbatim>\<open>t.me/addemoji/\<close> that is followed
  by a name character, found without looking at any scheme in front of it. It is compared
  below with \<open>re_search\<close>, the translation of the source's regular expression.
\<close>

fun first_link_name :: "string \<Rightarrow> string option" where
  "first_link_name [] = None"
| "first_link_name (c # cs) =
     (case match_name (c # cs) of Some g \<Rightarrow> Some g | None \<Rightarrow> first_link_name cs)"

text \<open>
  A call to the service has failed when the transport or the decoding raised, or when the
  reply's \<^verbatim>\<open>"ok"\<close> is not true.
\<close>

fun failed :: "'r response \<Rightarrow> bool" where
  "failed (Data ok r) = (\<not> ok)"
| "failed PostRaises = True"
| "failed JsonRaises = True"
| "failed NotAnObject = True"

text \<open>
  What an endpoint may hand to its caller: a result, or an \<^verbatim>\<open>HTTPException\<close> with status
  503 or 404. Any other exception leaving the handler would be an internal server error.
\<close>

fun surfaced :: "failure + 'a \<Rightarrow> bool" where
  "surfaced (Inr v) = True"
| "surfaced (Inl (HTTPException code detail)) = (code = 503 \<or> code = 404)"
| "surfaced (Inl (Unhandled e)) = False"

text \<open>
  The value \<^verbatim>\<open>get_file\<close> returns at the \<open>i\<close>-th iteration of the sticker loop started with
  trace \<open>tr\<close>: by then the loop has issued one \<^verbatim>\<open>getFile\<close> request for each of the first
  \<open>i\<close> stickers.
\<close>

definition file_call :: "TelegramAPI \<Rightarrow> trace \<Rightarrow> sticker list \<Rightarrow> nat \<Rightarrow> string option" where
  "file_call api tr sts i =
     (case fst (get_file api (st_file_id (sts ! i))
                  (tr @ map (\<lambda>s. GetFile (st_file_id s)) (take i sts))) of
        Inl e \<Rightarrow> None
      | Inr r \<Rightarrow> r)"

subsection \<open>Sample data\<close>

definition demo_sticker :: sticker where
  "demo_sticker =
     \<lparr> st_custom_emoji_id = Some ''5368324170671202286'',
       st_file_id = Some ''F1'',
       st_set_name = Some ''pack'',
       st_file_unique_id = Some ''AgADBAADb6cxGw'',
       st_emoji = None,
       st_width = Some 100,
       st_height = Some 100,
       st_is_animated = Some True,
       st_is_video = Some True,
       st_needs_repainting = None \<rparr>"

definition demo_sticker2 :: sticker where
  "demo_sticker2 =
     \<lparr> st_custom_emoji_id = None,
       st_file_id = Some ''F2'',
       st_set_name = None,
       st_file_unique_id = Some ''xyz'',
       st_emoji = None,
       st_width = None,
       st_height = None,
       st_is_animated = Some False,
       st_is_video = Some True,
       st_needs_repainting = None \<rparr>"

definition demo_set :: sticker_set where
  "demo_set =
     \<lparr> ss_name = Some ''demo'',
       ss_title = Some ''Demo pack'',
       ss_sticker_type = None,
       ss_stickers = Some [demo_sticker, demo_sticker2],
       ss_thumbnail = Some \<lparr> ps_file_id = Some ''T1'' \<rparr>,
       ss_other_keys = [] \<rparr>"

text \<open>
  A service that knows the pack \<^verbatim>\<open>demo\<close> and one custom emoji, and resolves the file
  \<^verbatim>\<open>F1\<close> only; and the same service with its file endpoint unreachable.
\<close>

definition demo_transport :: upstream where
  "demo_transport =
     \<lparr> getStickerSet = (\<lambda>tr nm. if nm = ''demo'' then Data True (Some demo_set) else Data False None),
       getCustomEmojiStickers =
         (\<lambda>tr ids. if ids = [''5368324170671202286''] then Data True (Some [demo_sticker])
                    else Data True (Some [])),
       getFile =
         (\<lambda>tr fid. if fid = Some ''F1'' then Data True (Some \<lparr> tf_file_path = Some ''stickers/f1.tgs'' \<rparr>)
                    else PostRaises) \<rparr>"

definition demo_api :: TelegramAPI where
  "demo_api = \<lparr> token = ''123:ABC'', client = demo_transport \<rparr>"

definition offline_api :: TelegramAPI where
  "offline_api = \<lparr> token = ''123:ABC'', client = demo_transport \<lparr> getFile := (\<lambda>tr fid. PostRaises) \<rparr> \<rparr>"

text \<open>
  A service whose three endpoints all fail, each in a different way.
\<close>

definition broken_api :: TelegramAPI where
  "broken_api =
     \<lparr> token = ''123:ABC'',
       client = \<lparr> getStickerSet = (\<lambda>tr nm. JsonRaises),
                  getCustomEmojiStickers = (\<lambda>tr ids. NotAnObject),
                  getFile = (\<lambda>tr fid. PostRaises) \<rparr> \<rparr>"

text \<open>
  A service that answers every pack request with the string \<^verbatim>\<open>oops\<close> as its result, and one
  that answers every pack request with the demo pack.
\<close>

definition oops_service :: "trace \<Rightarrow> string \<Rightarrow> (sticker_set + string) response" where
  "oops_service tr nm = Data True (Some (Inr ''oops''))"

definition demo_service_any :: "trace \<Rightarrow> string \<Rightarrow> (sticker_set + string) response" where
  "demo_service_any tr nm = Data True (Some (Inl demo_set))"

section \<open>Properties of the identifier normaliser\<close>

lemma match_name_Nil: "match_name [] = None"
  by (simp add: match_name_def)

lemma match_at_None: "match_at s = None \<Longrightarrow> match_name s = None"
  by (auto simp: match_at_def split: option.splits if_splits)

lemma first_skip_https: "first_link_name (''https://'' @ t) = first_link_name t"
  by (simp add: match_name_def)

lemma first_skip_http: "first_link_name (''http://'' @ t) = first_link_name t"
  by (simp add: match_name_def)

lemma first_link_name_here: "match_name s = Some g \<Longrightarrow> first_link_name s = Some g"
  by (cases s) (auto simp: match_name_Nil)

lemma match_at_Some:
  assumes "match_at s = Some g"
  shows "first_link_name s = Some g"
proof -
  consider (https) t where "s = ''https://'' @ t" "match_name t = Some g"
    | (http) t where "s = ''http://'' @ t" "match_name t = Some g"
    | (bare) "match_name s = Some g"
    using assms
    by (auto simp: match_at_def prefix_def split: option.splits if_splits)
  then show ?thesis
  proof cases
    case https
    then show ?thesis
      using first_skip_https [of t] first_link_name_here [of t g] by simp
  next
    case http
    then show ?thesis
      using first_skip_http [of t] first_link_name_here [of t g] by simp
  next
    case bare
    then show ?thesis by (rule first_link_name_here)
  qed
qed

lemma re_search_first: "re_search s = first_link_name s"
proof (induction s)
  case Nil
  show ?case by (simp add: match_at_def match_name_Nil)
next
  case (Cons c cs)
  show ?case
  proof (cases "match_at (c # cs)")
    case None
    then show ?thesis using Cons match_at_None [OF None] by simp
  next
    case (Some g)
    then show ?thesis using match_at_Some [OF Some] by simp
  qed
qed

lemma extract_pack_name_first:
  "extract_pack_name s = (case first_link_name s of Some g \<Rightarrow> g | None \<Rightarrow> s)"
  by (simp add: extract_pack_name_def re_search_first)

lemma takeWhile_run:
  assumes "list_all P g" "post = [] \<or> \<not> P (hd post)"
  shows "takeWhile P (g @ post) = g"
proof -
  have "takeWhile P post = []" using assms(2) by (cases post) auto
  then show ?thesis using assms(1) by (simp add: takeWhile_append2 list_all_iff)
qed

lemma match_name_Some_iff:
  "match_name t = Some g \<longleftrightarrow>
     (\<exists>post. t = ''t.me/addemoji/'' @ g @ post \<and> g \<noteq> [] \<and> list_all name_char g
        \<and> (post = [] \<or> \<not> name_char (hd post)))"
proof
  assume m: "match_name t = Some g"
  then obtain r where t: "t = ''t.me/addemoji/'' @ r"
    by (auto simp: match_name_def prefix_def split: if_splits)
  from m t have g: "g = takeWhile name_char r" "g \<noteq> []"
    by (auto simp: match_name_def Let_def split: if_splits)
  let ?post = "dropWhile name_char r"
  have "r = g @ ?post" by (simp add: g)
  moreover have "list_all name_char g"
    by (auto simp: g list_all_iff dest: set_takeWhileD)
  moreover have "?post = [] \<or> \<not> name_char (hd ?post)"
    using hd_dropWhile [of name_char r] by blast
  ultimately show "\<exists>post. t = ''t.me/addemoji/'' @ g @ post \<and> g \<noteq> [] \<and> list_all name_char g
        \<and> (post = [] \<or> \<not> name_char (hd post))"
    using t g(2) by metis
next
  assume "\<exists>post. t = ''t.me/addemoji/'' @ g @ post \<and> g \<noteq> [] \<and> list_all name_char g
        \<and> (post = [] \<or> \<not> name_char (hd post))"
  then obtain post where p: "t = ''t.me/addemoji/'' @ g @ post" "g \<noteq> []" "list_all name_char g"
      "post = [] \<or> \<not> name_char (hd post)"
    by blast
  have "takeWhile name_char (g @ post) = g" using p(3,4) by (rule takeWhile_run)
  then show "match_name t = Some g"
    using p(2) by (simp add: match_name_def p(1))
qed

lemma match_name_None_iff:
  "match_name t = None \<longleftrightarrow> \<not> (\<exists>c r. t = ''t.me/addemoji/'' @ c # r \<and> name_char c)"
proof
  assume n: "match_name t = None"
  show "\<not> (\<exists>c r. t = ''t.me/addemoji/'' @ c # r \<and> name_char c)"
  proof
    assume "\<exists>c r. t = ''t.me/addemoji/'' @ c # r \<and> name_char c"
    then obtain c r where "t = ''t.me/addemoji/'' @ c # r" "name_char c" by blast
    then have "match_name t \<noteq> None" by (simp add: match_name_def)
    with n show False by simp
  qed
next
  assume a: "\<not> (\<exists>c r. t = ''t.me/addemoji/'' @ c # r \<and> name_char c)"
  show "match_name t = None"
  proof (rule ccontr)
    assume "match_name t \<noteq> None"
    then obtain g where "match_name t = Some g" by blast
    then obtain post where p: "t = ''t.me/addemoji/'' @ g @ post" "g \<noteq> []" "list_all name_char g"
      using match_name_Some_iff by blast
    then obtain c g' where "g = c # g'" by (cases g) auto
    with p have "t = ''t.me/addemoji/'' @ c # (g' @ post)" "name_char c" by auto
    with a show False by blast
  qed
qed

lemma first_link_name_None_iff:
  "first_link_name s = None \<longleftrightarrow> (\<forall>p u. s = p @ u \<longrightarrow> match_name u = None)"
proof (induction s)
  case Nil
  show ?case by (simp add: match_name_Nil)
next
  case (Cons c cs)
  show ?case
  proof (cases "match_name (c # cs)")
    case None
    have "(\<forall>p u. c # cs = p @ u \<longrightarrow> match_name u = None) \<longleftrightarrow> (\<forall>p u. cs = p @ u \<longrightarrow> match_name u = None)"
      using None by (auto simp: Cons_eq_append_conv)
    then show ?thesis using None Cons.IH by simp
  next
    case (Some g)
    then have "\<not> (\<forall>p u. c # cs = p @ u \<longrightarrow> match_name u = None)"
      by (metis append_Nil option.distinct(1))
    then show ?thesis using Some by simp
  qed
qed

lemma first_link_name_Some_ex:
  "first_link_name s = Some g \<Longrightarrow> \<exists>p u. s = p @ u \<and> match_name u = Some g"
proof (induction s)
  case Nil
  then show ?case by simp
next
  case (Cons c cs)
  show ?case
  proof (cases "match_name (c # cs)")
    case None
    with Cons.prems have "first_link_name cs = Some g" by simp
    then obtain p u where "cs = p @ u" "match_name u = Some g" using Cons.IH by blast
    then have "c # cs = (c # p) @ u \<and> match_name u = Some g" by simp
    then show ?thesis by blast
  next
    case (Some h)
    with Cons.prems have "h = g" by simp
    with Some have "c # cs = [] @ (c # cs) \<and> match_name (c # cs) = Some g" by simp
    then show ?thesis by blast
  qed
qed

lemma first_link_name_leftmost:
  assumes "match_name u = Some g"
    and "\<forall>p' u'. p @ u = p' @ u' \<and> length p' < length p \<longrightarrow> match_name u' = None"
  shows "first_link_name (p @ u) = Some g"
  using assms
proof (induction p)
  case Nil
  then show ?case by (simp add: first_link_name_here)
next
  case (Cons a p)
  have here: "match_name (a # p @ u) = None"
    using Cons.prems(2) by (metis append_Cons append_Nil length_greater_0_conv list.distinct(1) list.size(3))
  have "\<forall>p' u'. p @ u = p' @ u' \<and> length p' < length p \<longrightarrow> match_name u' = None"
  proof (intro allI impI)
    fix p' u'
    assume h: "p @ u = p' @ u' \<and> length p' < length p"
    then have "(a # p) @ u = (a # p') @ u' \<and> length (a # p') < length (a # p)" by simp
    then show "match_name u' = None" using Cons.prems(2) by blast
  qed
  then have "first_link_name (p @ u) = Some g" using Cons.IH Cons.prems(1) by blast
  then show ?case using here by simp
qed

lemma dot_not_name_char: "\<not> name_char CHR ''.''"
  by (simp add: name_char_def)

lemma link_name_differs:
  assumes "s = p @ ''t.me/addemoji/'' @ r" "list_all name_char g"
  shows "g \<noteq> s"
proof
  assume "g = s"
  then have "list_all name_char s" using assms(2) by simp
  moreover have "CHR ''.'' \<in> set s" by (simp add: assms(1))
  ultimately show False using dot_not_name_char by (simp add: list_all_iff)
qed

lemma first_link_name_occurs_iff:
  "first_link_name s \<noteq> None \<longleftrightarrow> (\<exists>p c r. s = p @ ''t.me/addemoji/'' @ c # r \<and> name_char c)"
proof
  assume a: "first_link_name s \<noteq> None"
  have "\<not> (\<forall>p u. s = p @ u \<longrightarrow> match_name u = None)"
  proof
    assume "\<forall>p u. s = p @ u \<longrightarrow> match_name u = None"
    then have "first_link_name s = None" by (simp add: first_link_name_None_iff)
    with a show False by simp
  qed
  then obtain p u where pu: "s = p @ u" "match_name u \<noteq> None" by auto
  have "\<exists>c r. u = ''t.me/addemoji/'' @ c # r \<and> name_char c"
  proof (rule ccontr)
    assume "\<not> (\<exists>c r. u = ''t.me/addemoji/'' @ c # r \<and> name_char c)"
    then have "match_name u = None" by (simp add: match_name_None_iff)
    with pu(2) show False by simp
  qed
  then obtain c r where "u = ''t.me/addemoji/'' @ c # r" "name_char c" by auto
  with pu(1) have "s = p @ ''t.me/addemoji/'' @ c # r \<and> name_char c" by simp
  then show "\<exists>p c r. s = p @ ''t.me/addemoji/'' @ c # r \<and> name_char c" by (intro exI)
next
  assume "\<exists>p c r. s = p @ ''t.me/addemoji/'' @ c # r \<and> name_char c"
  then obtain p c r where h: "s = p @ ''t.me/addemoji/'' @ c # r" "name_char c" by auto
  have m: "match_name (''t.me/addemoji/'' @ c # r) \<noteq> None"
    using h(2) by (simp add: match_name_def)
  show "first_link_name s \<noteq> None"
  proof
    assume "first_link_name s = None"
    then have "\<forall>p u. s = p @ u \<longrightarrow> match_name u = None"
      by (simp add: first_link_name_None_iff)
    then have "s = p @ (''t.me/addemoji/'' @ c # r) \<longrightarrow> match_name (''t.me/addemoji/'' @ c # r) = None"
      by (elim allE)
    with h(1) m show False by simp
  qed
qed

lemma extract_pack_name_no_link:
  assumes "\<not> (\<exists>p c r. s = p @ ''t.me/addemoji/'' @ c # r \<and> name_char c)"
  shows "extract_pack_name s = s"
proof -
  have "first_link_name s = None" using assms first_link_name_occurs_iff [of s] by blast
  then show ?thesis by (simp add: extract_pack_name_first)
qed

lemma extract_pack_name_segment:
  assumes "\<exists>p c r. s = p @ ''t.me/addemoji/'' @ c # r \<and> name_char c"
  shows "\<exists>p post. s = p @ ''t.me/addemoji/'' @ extract_pack_name s @ post
           \<and> extract_pack_name s \<noteq> [] \<and> list_all name_char (extract_pack_name s)
           \<and> (post = [] \<or> \<not> name_char (hd post))"
proof -
  have "first_link_name s \<noteq> None" using assms first_link_name_occurs_iff [of s] by blast
  then obtain g where g: "first_link_name s = Some g" by blast
  then obtain p u where pu: "s = p @ u" "match_name u = Some g"
    using first_link_name_Some_ex by blast
  then obtain post where post: "u = ''t.me/addemoji/'' @ g @ post" "g \<noteq> []" "list_all name_char g"
      "post = [] \<or> \<not> name_char (hd post)"
    using match_name_Some_iff [of u g] by blast
  have e: "extract_pack_name s = g" by (simp add: extract_pack_name_first g)
  have "s = p @ ''t.me/addemoji/'' @ g @ post" using pu(1) post(1) by simp
  then show ?thesis unfolding e using post(2,3,4) by blast
qed

lemma extract_pack_name_changes:
  assumes "\<exists>p c r. s = p @ ''t.me/addemoji/'' @ c # r \<and> name_char c"
  shows "extract_pack_name s \<noteq> s"
proof -
  obtain p post where "s = p @ ''t.me/addemoji/'' @ (extract_pack_name s @ post)"
      "list_all name_char (extract_pack_name s)"
    using extract_pack_name_segment [OF assms] by auto
  then show ?thesis by (rule link_name_differs)
qed

lemma extract_pack_name_leftmost:
  assumes "s = pre @ ''t.me/addemoji/'' @ g @ post" "g \<noteq> []" "list_all name_char g"
    "post = [] \<or> \<not> name_char (hd post)"
    "\<not> (\<exists>p c r. length p < length pre \<and> s = p @ ''t.me/addemoji/'' @ c # r \<and> name_char c)"
  shows "extract_pack_name s = g"
proof -
  let ?u = "''t.me/addemoji/'' @ g @ post"
  have m: "match_name ?u = Some g"
    using assms(2,3,4) match_name_Some_iff [of ?u g] by blast
  have "\<forall>p' u'. pre @ ?u = p' @ u' \<and> length p' < length pre \<longrightarrow> match_name u' = None"
  proof (intro allI impI)
    fix p' u'
    assume h: "pre @ ?u = p' @ u' \<and> length p' < length pre"
    show "match_name u' = None"
    proof (rule ccontr)
      assume "match_name u' \<noteq> None"
      then have "\<exists>c r. u' = ''t.me/addemoji/'' @ c # r \<and> name_char c"
        by (simp add: match_name_None_iff)
      then obtain c r where "u' = ''t.me/addemoji/'' @ c # r" "name_char c" by auto
      with h have "length p' < length pre \<and> s = p' @ ''t.me/addemoji/'' @ c # r \<and> name_char c"
        using assms(1) by simp
      with assms(5) show False by blast
    qed
  qed
  then have "first_link_name (pre @ ?u) = Some g" using m by (rule first_link_name_leftmost [rotated])
  then show ?thesis by (simp add: extract_pack_name_first assms(1))
qed

lemma extract_pack_name_whole_link:
  assumes "scheme \<in> {[], ''http://'', ''https://''}" "g \<noteq> []" "list_all name_char g"
  shows "extract_pack_name (scheme @ ''t.me/addemoji/'' @ g) = g"
proof -
  let ?u = "''t.me/addemoji/'' @ g"
  have "match_name (''t.me/addemoji/'' @ g @ []) = Some g"
    using assms(2,3) match_name_Some_iff [of "''t.me/addemoji/'' @ g @ []" g] by blast
  then have "first_link_name ?u = Some g" using first_link_name_here [of ?u g] by simp
  moreover have "first_link_name (scheme @ ?u) = first_link_name ?u"
    using assms(1) first_skip_http [of ?u] first_skip_https [of ?u] by auto
  ultimately show ?thesis by (simp add: extract_pack_name_first)
qed

lemma early_link_iff:
  "(\<exists>p c r. length p < n \<and> s = p @ ''t.me/addemoji/'' @ c # r \<and> name_char c)
     \<longleftrightarrow> list_ex (\<lambda>i. match_name (drop i s) \<noteq> None) [0..<n]"
proof
  assume "\<exists>p c r. length p < n \<and> s = p @ ''t.me/addemoji/'' @ c # r \<and> name_char c"
  then obtain p c r where h: "length p < n" "s = p @ ''t.me/addemoji/'' @ c # r" "name_char c" by blast
  then have "drop (length p) s = ''t.me/addemoji/'' @ c # r" by simp
  then have "match_name (drop (length p) s) \<noteq> None"
    using h(3) match_name_None_iff [of "drop (length p) s"] by blast
  then show "list_ex (\<lambda>i. match_name (drop i s) \<noteq> None) [0..<n]"
    using h(1) by (auto simp: list_ex_iff)
next
  assume "list_ex (\<lambda>i. match_name (drop i s) \<noteq> None) [0..<n]"
  then obtain i where i: "i < n" "match_name (drop i s) \<noteq> None" by (auto simp: list_ex_iff)
  then have "\<exists>c r. drop i s = ''t.me/addemoji/'' @ c # r \<and> name_char c"
    by (simp add: match_name_None_iff)
  then obtain c r where cr: "drop i s = ''t.me/addemoji/'' @ c # r" "name_char c" by auto
  have "s = take i s @ drop i s" by simp
  then have "s = take i s @ ''t.me/addemoji/'' @ c # r" using cr(1) by simp
  moreover have "length (take i s) < n" using i(1) by simp
  ultimately show "\<exists>p c r. length p < n \<and> s = p @ ''t.me/addemoji/'' @ c # r \<and> name_char c"
    using cr(2) by blast
qed

lemma no_dot_no_link:
  assumes "CHR ''.'' \<notin> set s"
  shows "\<not> (\<exists>p c r. s = p @ ''t.me/addemoji/'' @ c # r \<and> name_char c)"
proof
  assume "\<exists>p c r. s = p @ ''t.me/addemoji/'' @ c # r \<and> name_char c"
  then obtain p c r where "s = p @ ''t.me/addemoji/'' @ c # r" by auto
  then have "CHR ''.'' \<in> set s" by simp
  with assms show False by simp
qed


section \<open>Properties of the client and of the endpoints\<close>

lemma get_sticker_set_Inr:
  "get_sticker_set api nm tr =
     (Inr (case getStickerSet (client api) tr nm of Data True r \<Rightarrow> r | _ \<Rightarrow> None),
      tr @ [GetStickerSet nm])"
  by (simp add: get_sticker_set_def get_sticker_set_try_def split: response.splits bool.splits)

lemma get_custom_emoji_stickers_Inr:
  "get_custom_emoji_stickers api ids tr =
     (Inr (case getCustomEmojiStickers (client api) tr ids of Data True (Some l) \<Rightarrow> l | _ \<Rightarrow> []),
      tr @ [GetCustomEmojiStickers ids])"
  by (simp add: get_custom_emoji_stickers_def get_custom_emoji_stickers_try_def
      split: response.splits bool.splits option.splits)

lemma get_file_Inr:
  "get_file api fid tr =
     (Inr (case getFile (client api) tr fid of
             Data True (Some f) \<Rightarrow>
               (case tf_file_path f of
                  None \<Rightarrow> None
                | Some p \<Rightarrow> if p \<noteq> [] then Some (file_download_url (token api) p) else None)
           | _ \<Rightarrow> None),
      tr @ [GetFile fid])"
  by (simp add: get_file_def get_file_try_def split: response.splits bool.splits option.splits)

lemma get_file_fst: "\<exists>r. fst (get_file api fid tr) = Inr r"
  by (simp add: get_file_Inr)

lemma get_file_snd: "snd (get_file api fid tr) = tr @ [GetFile fid]"
  by (simp add: get_file_def)

lemma file_call_0: "file_call api tr (s # rest) 0 = (case fst (get_file api (st_file_id s) tr) of Inl e \<Rightarrow> None | Inr r \<Rightarrow> r)"
  by (simp add: file_call_def)

lemma file_call_Suc:
  "file_call api tr (s # rest) (Suc i) = file_call api (tr @ [GetFile (st_file_id s)]) rest i"
  by (simp add: file_call_def)

lemma process_stickers_eq:
  "process_stickers api sts acc tr =
     (Inr (acc @ map (\<lambda>i. sticker_to_emoji_data (sts ! i) (get_or (file_call api tr sts i) [])) [0..<length sts]),
      tr @ map (\<lambda>s. GetFile (st_file_id s)) sts)"
proof (induction sts arbitrary: acc tr)
  case Nil
  show ?case by simp
next
  case (Cons s rest)
  obtain r where r: "get_file api (st_file_id s) tr = (Inr r, tr @ [GetFile (st_file_id s)])"
    using get_file_Inr by blast
  have step: "process_stickers api (s # rest) acc tr =
      process_stickers api rest (acc @ [sticker_to_emoji_data s (get_or r [])]) (tr @ [GetFile (st_file_id s)])"
    by (simp add: r)
  have c0: "file_call api tr (s # rest) 0 = r"
    by (simp add: file_call_0 r)
  show ?case
    unfolding step Cons.IH
    by (simp add: map_upt_Suc file_call_Suc c0 del: upt_Suc)
qed

lemma get_pack_Some:
  "get_pack (Some api) url tr =
     (case fst (get_sticker_set api (extract_pack_name url) tr) of
        Inl e \<Rightarrow> (Inl (Unhandled e), tr @ [GetStickerSet (extract_pack_name url)])
      | Inr None \<Rightarrow>
          (Inl (HTTPException 404 (''Pack not found: '' @ extract_pack_name url)),
           tr @ [GetStickerSet (extract_pack_name url)])
      | Inr (Some d) \<Rightarrow>
          if dict_empty d
          then (Inl (HTTPException 404 (''Pack not found: '' @ extract_pack_name url)),
                tr @ [GetStickerSet (extract_pack_name url)])
          else
            (Inr \<lparr> name = get_or (ss_name d) (extract_pack_name url),
                   title = get_or (ss_title d) (extract_pack_name url),
                   sticker_type = get_or (ss_sticker_type d) ''custom_emoji'',
                   stickers =
                     map (\<lambda>i. sticker_to_emoji_data (get_or (ss_stickers d) [] ! i)
                                (get_or (file_call api (tr @ [GetStickerSet (extract_pack_name url)])
                                           (get_or (ss_stickers d) []) i) []))
                       [0..<length (get_or (ss_stickers d) [])],
                   thumbnail = (case ss_thumbnail d of None \<Rightarrow> None | Some t \<Rightarrow> ps_file_id t) \<rparr>,
             tr @ [GetStickerSet (extract_pack_name url)]
                @ map (\<lambda>s. GetFile (st_file_id s)) (get_or (ss_stickers d) [])))"
  by (simp add: get_pack_def get_sticker_set_Inr process_stickers_eq not_sticker_set_def Let_def
      split: option.splits)

lemma get_manifest_Some:
  "get_manifest (Some api) pack_id tr =
     (case fst (get_sticker_set api pack_id tr) of
        Inl e \<Rightarrow> (Inl (Unhandled e), tr @ [GetStickerSet pack_id])
      | Inr None \<Rightarrow>
          (Inl (HTTPException 404 (''Pack not found: '' @ pack_id)), tr @ [GetStickerSet pack_id])
      | Inr (Some d) \<Rightarrow>
          if dict_empty d
          then (Inl (HTTPException 404 (''Pack not found: '' @ pack_id)), tr @ [GetStickerSet pack_id])
          else
            (Inr \<lparr> name = get_or (ss_name d) pack_id,
                   title = get_or (ss_title d) pack_id,
                   sticker_type = get_or (ss_sticker_type d) ''custom_emoji'',
                   stickers =
                     map (\<lambda>i. sticker_to_emoji_data (get_or (ss_stickers d) [] ! i)
                                (get_or (file_call api (tr @ [GetStickerSet pack_id])
                                           (get_or (ss_stickers d) []) i) []))
                       [0..<length (get_or (ss_stickers d) [])],
                   thumbnail = None \<rparr>,
             tr @ [GetStickerSet pack_id]
                @ map (\<lambda>s. GetFile (st_file_id s)) (get_or (ss_stickers d) [])))"
  by (simp add: get_manifest_def get_sticker_set_Inr process_stickers_eq not_sticker_set_def Let_def
      split: option.splits)

lemma get_emoji_Some:
  "get_emoji (Some api) emoji_id tr =
     (case fst (get_custom_emoji_stickers api [emoji_id] tr) of
        Inl e \<Rightarrow> (Inl (Unhandled e), tr @ [GetCustomEmojiStickers [emoji_id]])
      | Inr [] \<Rightarrow>
          (Inl (HTTPException 404 (''Emoji not found: '' @ emoji_id)),
           tr @ [GetCustomEmojiStickers [emoji_id]])
      | Inr (s # rest) \<Rightarrow>
          (Inr (sticker_to_emoji_data s
                 (get_or (file_call api (tr @ [GetCustomEmojiStickers [emoji_id]]) [s] 0) [])),
           tr @ [GetCustomEmojiStickers [emoji_id], GetFile (st_file_id s)]))"
  by (simp add: get_emoji_def get_custom_emoji_stickers_Inr get_file_Inr file_call_def
      split: list.splits)


lemma file_download_url_nonempty: "file_download_url tok p \<noteq> []"
  by (simp add: file_download_url_def)

lemma file_call_Some_nonempty: "file_call api tr sts i = Some u \<Longrightarrow> u \<noteq> []"
  by (auto simp: file_call_def get_file_Inr file_download_url_nonempty
      split: response.splits bool.splits option.splits if_splits)

lemma file_url_mapped: "file_url (sticker_to_emoji_data s u) = u"
  by (simp add: sticker_to_emoji_data_def)

lemma get_or_file_call_empty: "get_or (file_call api tr sts i) [] = [] \<longleftrightarrow> file_call api tr sts i = None"
  using file_call_Some_nonempty [of api tr sts i]
  by (cases "file_call api tr sts i") (auto simp: get_or_def)

lemma get_sticker_set_fst_Data:
  "getStickerSet (client api) tr nm = Data True (Some d) \<Longrightarrow> fst (get_sticker_set api nm tr) = Inr (Some d)"
  by (simp add: get_sticker_set_Inr)

lemma extract_demo_link: "extract_pack_name ''https://t.me/addemoji/demo'' = ''demo''"
  by (simp add: extract_pack_name_def match_at_def match_name_def name_char_def)

lemma extract_plain:
  "extract_pack_name ''demo'' = ''demo''" "extract_pack_name ''unknownpack'' = ''unknownpack''"
  by (simp_all add: extract_pack_name_def match_at_def match_name_def name_char_def)

lemma get_sticker_set_any_Inr:
  "get_sticker_set_any post nm tr =
     (Inr (case post tr nm of Data True r \<Rightarrow> r | _ \<Rightarrow> None), tr @ [GetStickerSet nm])"
  by (simp add: get_sticker_set_any_def split: response.splits bool.splits)

lemma get_pack_any_documented:
  assumes "post tr (extract_pack_name url) = map_response Inl (getStickerSet (client api) tr (extract_pack_name url))"
  shows "get_pack_any (Some api) post url tr = get_pack (Some api) url tr"
  by (cases "getStickerSet (client api) tr (extract_pack_name url)")
     (simp_all add: get_pack_any_def get_pack_def get_sticker_set_any_Inr get_sticker_set_Inr assms
        not_value_def not_sticker_set_def Let_def split: option.splits bool.splits)

lemma get_pack_any_surfaced_iff:
  "surfaced (fst (get_pack_any telegram_api post url tr))
     \<longleftrightarrow> \<not> (telegram_api \<noteq> None
            \<and> (\<exists>s. post tr (extract_pack_name url) = Data True (Some (Inr s)) \<and> s \<noteq> []))"
proof (cases telegram_api)
  case None
  then show ?thesis by (simp add: get_pack_any_def)
next
  case (Some api)
  show ?thesis
    unfolding Some
    by (cases "post tr (extract_pack_name url)")
       (auto simp: get_pack_any_def get_sticker_set_any_Inr process_stickers_eq not_value_def Let_def
          split: option.splits bool.splits sum.splits)
qed

lemma get_pack_named_eq: "get_pack telegram_api url tr = get_pack_named telegram_api (extract_pack_name url) tr"
  by (cases telegram_api) (simp_all add: get_pack_def get_pack_named_def Let_def)

lemma get_manifest_named:
  "get_manifest telegram_api pack_id tr =
     (map_sum id (\<lambda>p. p\<lparr>thumbnail := None\<rparr>) (fst (get_pack_named telegram_api pack_id tr)),
      snd (get_pack_named telegram_api pack_id tr))"
proof (cases telegram_api)
  case None
  then show ?thesis by (simp add: get_manifest_def get_pack_named_def)
next
  case (Some api)
  show ?thesis
    unfolding Some
    by (cases "getStickerSet (client api) tr pack_id")
       (simp_all add: get_manifest_def get_pack_named_def get_sticker_set_Inr process_stickers_eq
          not_sticker_set_def split: option.splits bool.splits)
qed

lemma get_manifest_first_request:
  "take (Suc (length tr)) (snd (get_manifest (Some api) pack_id tr)) = tr @ [GetStickerSet pack_id]"
  unfolding get_manifest_Some
  by (simp add: get_sticker_set_Inr split: sum.splits option.splits)

lemma get_pack_first_request:
  "take (Suc (length tr)) (snd (get_pack (Some api) url tr)) = tr @ [GetStickerSet (extract_pack_name url)]"
  unfolding get_pack_Some
  by (simp add: get_sticker_set_Inr split: sum.splits option.splits)

section \<open>The claims\<close>

subsection \<open>C1: one item per sticker, in upstream order\<close>

text \<open>
  C1. Let the service answer the pack request with a non-empty record \<open>d\<close>, and let \<open>sts\<close>
  be its sticker records (none when the key is missing). Then \<^verbatim>\<open>get_pack\<close> succeeds (the
  response is a pack, status 200) after one \<^verbatim>\<open>getFile\<close> request per sticker, issued in
  upstream order; the pack has as many items as \<open>sts\<close>; and the \<open>i\<close>-th item is
  \<^verbatim>\<open>sticker_to_emoji_data\<close> of the \<open>i\<close>-th sticker record and of the URL resolved for it.
  A sticker whose resolution returned nothing is not dropped: it stands at its position, and
  its \<^verbatim>\<open>file_url\<close> is the empty string, which is how \<^verbatim>\<open>get_file(...) or ""\<close> records a
  missing URL in the required string field; the empty string arises in no other way, a
  resolved URL being never empty. When every resolution fails the pack still comes back, with
  every item present and every \<^verbatim>\<open>file_url\<close> empty.
\<close>

theorem get_pack_items_positional:
  assumes "getStickerSet (client api) tr (extract_pack_name url) = Data True (Some d)"
    and "\<not> dict_empty d"
    and "sts = get_or (ss_stickers d) []"
    and "tr1 = tr @ [GetStickerSet (extract_pack_name url)]"
  shows "\<exists>pack. get_pack (Some api) url tr = (Inr pack, tr1 @ map (\<lambda>s. GetFile (st_file_id s)) sts)
           \<and> length (stickers pack) = length sts
           \<and> (\<forall>i<length sts.
                 stickers pack ! i = sticker_to_emoji_data (sts ! i) (get_or (file_call api tr1 sts i) [])
                 \<and> (file_url (stickers pack ! i) = [] \<longleftrightarrow> file_call api tr1 sts i = None))
           \<and> ((\<forall>i<length sts. file_call api tr1 sts i = None) \<longrightarrow>
                 stickers pack = map (\<lambda>s. sticker_to_emoji_data s []) sts)"
proof -
  let ?items = "map (\<lambda>i. sticker_to_emoji_data (sts ! i) (get_or (file_call api tr1 sts i) [])) [0..<length sts]"
  let ?pack = "\<lparr> name = get_or (ss_name d) (extract_pack_name url),
                 title = get_or (ss_title d) (extract_pack_name url),
                 sticker_type = get_or (ss_sticker_type d) ''custom_emoji'',
                 stickers = ?items,
                 thumbnail = (case ss_thumbnail d of None \<Rightarrow> None | Some t \<Rightarrow> ps_file_id t) \<rparr>"
  have g: "get_pack (Some api) url tr = (Inr ?pack, tr1 @ map (\<lambda>s. GetFile (st_file_id s)) sts)"
    unfolding get_pack_Some
    by (simp add: get_sticker_set_fst_Data [OF assms(1)] assms(2) assms(3) assms(4))
  have l: "length (stickers ?pack) = length sts" by simp
  have p: "\<forall>i<length sts.
             stickers ?pack ! i = sticker_to_emoji_data (sts ! i) (get_or (file_call api tr1 sts i) [])
             \<and> (file_url (stickers ?pack ! i) = [] \<longleftrightarrow> file_call api tr1 sts i = None)"
    by (simp add: file_url_mapped get_or_file_call_empty)
  have a: "(\<forall>i<length sts. file_call api tr1 sts i = None) \<longrightarrow>
             stickers ?pack = map (\<lambda>s. sticker_to_emoji_data s []) sts"
  proof
    assume n: "\<forall>i<length sts. file_call api tr1 sts i = None"
    have "?items = map (\<lambda>s. sticker_to_emoji_data s []) sts"
      by (rule nth_equalityI) (use n in \<open>simp_all add: get_or_def\<close>)
    then show "stickers ?pack = map (\<lambda>s. sticker_to_emoji_data s []) sts" by simp
  qed
  show ?thesis
  proof (rule exI [of _ ?pack], intro conjI)
    show "get_pack (Some api) url tr = (Inr ?pack, tr1 @ map (\<lambda>s. GetFile (st_file_id s)) sts)"
      by (rule g)
    show "length (stickers ?pack) = length sts" by (rule l)
    show "\<forall>i<length sts.
             stickers ?pack ! i = sticker_to_emoji_data (sts ! i) (get_or (file_call api tr1 sts i) [])
             \<and> (file_url (stickers ?pack ! i) = [] \<longleftrightarrow> file_call api tr1 sts i = None)"
      by (rule p)
    show "(\<forall>i<length sts. file_call api tr1 sts i = None) \<longrightarrow>
             stickers ?pack = map (\<lambda>s. sticker_to_emoji_data s []) sts"
      by (rule a)
  qed
qed

theorem get_pack_items_positional_witness:
  "(\<exists>pack. get_pack (Some demo_api) ''https://t.me/addemoji/demo'' [] =
            (Inr pack, [GetStickerSet ''demo'', GetFile (Some ''F1''), GetFile (Some ''F2'')])
          \<and> length (stickers pack) = 2
          \<and> stickers pack ! 0 = sticker_to_emoji_data demo_sticker
                                  ''https://api.telegram.org/file/bot123:ABC/stickers/f1.tgs''
          \<and> stickers pack ! 1 = sticker_to_emoji_data demo_sticker2 [])
   \<and> (\<exists>pack. get_pack (Some offline_api) ''https://t.me/addemoji/demo'' [] =
            (Inr pack, [GetStickerSet ''demo'', GetFile (Some ''F1''), GetFile (Some ''F2'')])
          \<and> stickers pack = [sticker_to_emoji_data demo_sticker [], sticker_to_emoji_data demo_sticker2 []])"
proof (intro conjI)
  let ?url = "''https://t.me/addemoji/demo''"
  let ?sts = "[demo_sticker, demo_sticker2]"
  let ?tr1 = "[GetStickerSet ''demo'']"
  have h2: "\<not> dict_empty demo_set" by (simp add: dict_empty_def demo_set_def)
  have h3: "?sts = get_or (ss_stickers demo_set) []" by (simp add: demo_set_def get_or_def)
  have h4: "?tr1 = [] @ [GetStickerSet (extract_pack_name ?url)]" by (simp add: extract_demo_link)
  have h1: "getStickerSet (client demo_api) [] (extract_pack_name ?url) = Data True (Some demo_set)"
    by (simp add: extract_demo_link demo_api_def demo_transport_def)
  have c0: "file_call demo_api ?tr1 ?sts 0 = Some ''https://api.telegram.org/file/bot123:ABC/stickers/f1.tgs''"
    by (simp add: file_call_def get_file_Inr demo_api_def demo_transport_def demo_sticker_def
        file_download_url_def)
  have c1: "file_call demo_api ?tr1 ?sts (Suc 0) = None"
    by (simp add: file_call_def get_file_Inr demo_api_def demo_transport_def demo_sticker2_def)
  from get_pack_items_positional [OF h1 h2 h3 h4]
  obtain pack where g: "get_pack (Some demo_api) ?url [] = (Inr pack, ?tr1 @ map (\<lambda>s. GetFile (st_file_id s)) ?sts)"
    and l: "length (stickers pack) = length ?sts"
    and p: "\<forall>i<length ?sts.
                 stickers pack ! i = sticker_to_emoji_data (?sts ! i) (get_or (file_call demo_api ?tr1 ?sts i) [])
                 \<and> (file_url (stickers pack ! i) = [] \<longleftrightarrow> file_call demo_api ?tr1 ?sts i = None)"
    by (elim exE conjE)
  from p have p0: "stickers pack ! 0 = sticker_to_emoji_data demo_sticker
                                  ''https://api.telegram.org/file/bot123:ABC/stickers/f1.tgs''"
    by (simp add: c0 get_or_def)
  from p have p1: "stickers pack ! 1 = sticker_to_emoji_data demo_sticker2 []"
    by (simp add: c1 get_or_def)
  from g have g': "get_pack (Some demo_api) ?url [] =
            (Inr pack, [GetStickerSet ''demo'', GetFile (Some ''F1''), GetFile (Some ''F2'')])"
    by (simp add: demo_sticker_def demo_sticker2_def)
  from l have l': "length (stickers pack) = 2" by simp
  from g' l' p0 p1
  show "\<exists>pack. get_pack (Some demo_api) ?url [] =
            (Inr pack, [GetStickerSet ''demo'', GetFile (Some ''F1''), GetFile (Some ''F2'')])
          \<and> length (stickers pack) = 2
          \<and> stickers pack ! 0 = sticker_to_emoji_data demo_sticker
                                  ''https://api.telegram.org/file/bot123:ABC/stickers/f1.tgs''
          \<and> stickers pack ! 1 = sticker_to_emoji_data demo_sticker2 []"
    by (intro exI [of _ pack] conjI)
  have o1: "getStickerSet (client offline_api) [] (extract_pack_name ?url) = Data True (Some demo_set)"
    by (simp add: extract_demo_link offline_api_def demo_transport_def)
  have oc: "\<forall>i<length ?sts. file_call offline_api ?tr1 ?sts i = None"
    by (simp add: file_call_def get_file_Inr offline_api_def)
  from get_pack_items_positional [OF o1 h2 h3 h4]
  obtain pack' where og: "get_pack (Some offline_api) ?url [] = (Inr pack', ?tr1 @ map (\<lambda>s. GetFile (st_file_id s)) ?sts)"
    and oa: "(\<forall>i<length ?sts. file_call offline_api ?tr1 ?sts i = None) \<longrightarrow>
                 stickers pack' = map (\<lambda>s. sticker_to_emoji_data s []) ?sts"
    by (elim exE conjE)
  from oa oc have os: "stickers pack' = [sticker_to_emoji_data demo_sticker [], sticker_to_emoji_data demo_sticker2 []]"
    by simp
  from og have og': "get_pack (Some offline_api) ?url [] =
            (Inr pack', [GetStickerSet ''demo'', GetFile (Some ''F1''), GetFile (Some ''F2'')])"
    by (simp add: demo_sticker_def demo_sticker2_def)
  from og' os
  show "\<exists>pack. get_pack (Some offline_api) ?url [] =
            (Inr pack, [GetStickerSet ''demo'', GetFile (Some ''F1''), GetFile (Some ''F2'')])
          \<and> stickers pack = [sticker_to_emoji_data demo_sticker [], sticker_to_emoji_data demo_sticker2 []]"
    by (intro exI [of _ pack'] conjI)
qed

subsection \<open>C2: upstream faults are absorbed\<close>

text \<open>
  C2 as stated fails in its last part, that the pipeline never hands its caller anything but
  the 503 and the 404 exception. When the service answers the pack request with
  \<^verbatim>\<open>{"ok": true, "result": "oops"}\<close>, \<^verbatim>\<open>get_sticker_set\<close> returns the string and
  \<^verbatim>\<open>get_pack\<close> raises \<^verbatim>\<open>AttributeError\<close> at \<^verbatim>\<open>sticker_set.get\<close>; nothing catches it.
\<close>

theorem pipeline_unhandled_on_string_result_counterexample:
  "fst (get_pack_any (Some demo_api) oops_service ''demo'' []) = Inl (Unhandled AttributeError)
   \<and> \<not> surfaced (fst (get_pack_any (Some demo_api) oops_service ''demo'' []))"
  by (simp add: get_pack_any_def get_sticker_set_any_Inr oops_service_def not_value_def Let_def)

text \<open>
  C2, amended. None of \<^verbatim>\<open>get_sticker_set\<close>, \<^verbatim>\<open>get_custom_emoji_stickers\<close> and
  \<^verbatim>\<open>get_file\<close> raises: each returns a value whatever the transport does, also on the wider
  pack replies. When the call fails (the post raises, the body does not decode, the body is
  not an object, or \<^verbatim>\<open>"ok"\<close> is not true) the value is \<^verbatim>\<open>None\<close> for the pack fetch and the
  file resolution and the empty list for the batch lookup. Provided every ok reply carries a
  result of the documented shape, each of the three endpoints hands its caller a result or an
  \<^verbatim>\<open>HTTPException\<close> with status 503 or 404 and no other exception: so it is on the typed
  replies of the first section, and for \<^verbatim>\<open>get_pack\<close> on the wider replies whenever the
  reply is not an ok reply with a string as its result. (The handlers catch
  \<^verbatim>\<open>Exception\<close>; the exceptions modelled are those the \<^verbatim>\<open>try\<close> blocks can raise.)
\<close>

theorem faults_absorbed_on_documented_replies:
  "(\<exists>r. fst (get_sticker_set api nm tr) = Inr r)
   \<and> (\<exists>r. fst (get_custom_emoji_stickers api ids tr) = Inr r)
   \<and> (\<exists>r. fst (get_file api fid tr) = Inr r)
   \<and> (failed (getStickerSet (client api) tr nm) \<longrightarrow> fst (get_sticker_set api nm tr) = Inr None)
   \<and> (failed (getCustomEmojiStickers (client api) tr ids) \<longrightarrow>
        fst (get_custom_emoji_stickers api ids tr) = Inr [])
   \<and> (failed (getFile (client api) tr fid) \<longrightarrow> fst (get_file api fid tr) = Inr None)
   \<and> (\<exists>r. fst (get_sticker_set_any post nm tr) = Inr r)
   \<and> (failed (post tr nm) \<longrightarrow> fst (get_sticker_set_any post nm tr) = Inr None)
   \<and> surfaced (fst (get_pack telegram_api url tr'))
   \<and> surfaced (fst (get_emoji telegram_api emoji_id tr'))
   \<and> surfaced (fst (get_manifest telegram_api pack_id tr'))
   \<and> ((\<forall>s. post tr' (extract_pack_name url) \<noteq> Data True (Some (Inr s))) \<longrightarrow>
        surfaced (fst (get_pack_any telegram_api post url tr')))"
proof -
  have a: "(\<exists>r. fst (get_sticker_set api nm tr) = Inr r)
     \<and> (failed (getStickerSet (client api) tr nm) \<longrightarrow> fst (get_sticker_set api nm tr) = Inr None)"
    by (cases "getStickerSet (client api) tr nm") (simp_all add: get_sticker_set_Inr)
  have b: "(\<exists>r. fst (get_custom_emoji_stickers api ids tr) = Inr r)
     \<and> (failed (getCustomEmojiStickers (client api) tr ids) \<longrightarrow>
          fst (get_custom_emoji_stickers api ids tr) = Inr [])"
    by (cases "getCustomEmojiStickers (client api) tr ids") (simp_all add: get_custom_emoji_stickers_Inr)
  have c: "(\<exists>r. fst (get_file api fid tr) = Inr r)
     \<and> (failed (getFile (client api) tr fid) \<longrightarrow> fst (get_file api fid tr) = Inr None)"
    by (cases "getFile (client api) tr fid") (simp_all add: get_file_Inr)
  have e: "(\<exists>r. fst (get_sticker_set_any post nm tr) = Inr r)
     \<and> (failed (post tr nm) \<longrightarrow> fst (get_sticker_set_any post nm tr) = Inr None)"
    by (cases "post tr nm") (simp_all add: get_sticker_set_any_Inr)
  have d: "surfaced (fst (get_pack telegram_api url tr'))
     \<and> surfaced (fst (get_emoji telegram_api emoji_id tr'))
     \<and> surfaced (fst (get_manifest telegram_api pack_id tr'))"
  proof (cases telegram_api)
    case None
    then show ?thesis by (simp add: get_manifest_def get_pack_def get_emoji_def)
  next
    case (Some api')
    show ?thesis
      unfolding Some get_manifest_Some get_pack_Some get_emoji_Some
      by (simp add: get_sticker_set_Inr get_custom_emoji_stickers_Inr
          split: sum.splits option.splits list.splits)
  qed
  have f: "(\<forall>s. post tr' (extract_pack_name url) \<noteq> Data True (Some (Inr s))) \<longrightarrow>
        surfaced (fst (get_pack_any telegram_api post url tr'))"
    by (simp add: get_pack_any_surfaced_iff)
  from a b c e d f show ?thesis by simp
qed

theorem faults_absorbed_on_documented_replies_witness:
  "fst (get_sticker_set broken_api ''demo'' []) = Inr None
   \<and> fst (get_custom_emoji_stickers broken_api [''12345''] []) = Inr []
   \<and> fst (get_file broken_api (Some ''F1'') []) = Inr None
   \<and> surfaced (fst (get_pack (Some broken_api) ''demo'' []))
   \<and> surfaced (fst (get_pack_any (Some demo_api) demo_service_any ''demo'' []))"
proof -
  note t = faults_absorbed_on_documented_replies
      [where api = broken_api and nm = "''demo''" and tr = "[]" and ids = "[''12345'']"
         and fid = "Some ''F1''" and telegram_api = "Some broken_api" and url = "''demo''"
         and tr' = "[]" and emoji_id = "''12345''" and pack_id = "''demo''"
         and post = demo_service_any]
  note u = faults_absorbed_on_documented_replies
      [where api = demo_api and nm = "''demo''" and tr = "[]" and ids = "[''12345'']"
         and fid = "Some ''F1''" and telegram_api = "Some demo_api" and url = "''demo''"
         and tr' = "[]" and emoji_id = "''12345''" and pack_id = "''demo''"
         and post = demo_service_any]
  have f1: "failed (getStickerSet (client broken_api) [] ''demo'')"
    by (simp add: broken_api_def)
  have f2: "failed (getCustomEmojiStickers (client broken_api) [] [''12345''])"
    by (simp add: broken_api_def)
  have f3: "failed (getFile (client broken_api) [] (Some ''F1''))"
    by (simp add: broken_api_def)
  have f4: "\<forall>s. demo_service_any [] (extract_pack_name ''demo'') \<noteq> Data True (Some (Inr s))"
    by (simp add: demo_service_any_def)
  have a: "fst (get_sticker_set broken_api ''demo'' []) = Inr None"
    by (rule mp [OF conjunct1 [OF conjunct2 [OF conjunct2 [OF conjunct2 [OF t]]]] f1])
  have b: "fst (get_custom_emoji_stickers broken_api [''12345''] []) = Inr []"
    by (rule mp [OF conjunct1 [OF conjunct2 [OF conjunct2 [OF conjunct2 [OF conjunct2 [OF t]]]]] f2])
  have c: "fst (get_file broken_api (Some ''F1'') []) = Inr None"
    by (rule mp [OF conjunct1 [OF conjunct2 [OF conjunct2 [OF conjunct2 [OF conjunct2 [OF conjunct2 [OF t]]]]]] f3])
  have d: "surfaced (fst (get_pack (Some broken_api) ''demo'' []))"
    by (rule conjunct1 [OF conjunct2 [OF conjunct2 [OF conjunct2 [OF conjunct2 [OF conjunct2 [OF conjunct2 [OF conjunct2 [OF conjunct2 [OF t]]]]]]]]])
  have e: "surfaced (fst (get_pack_any (Some demo_api) demo_service_any ''demo'' []))"
    by (rule mp [OF conjunct2 [OF conjunct2 [OF conjunct2 [OF conjunct2 [OF conjunct2 [OF conjunct2 [OF conjunct2 [OF conjunct2 [OF conjunct2 [OF conjunct2 [OF conjunct2 [OF u]]]]]]]]]]] f4])
  from a b c d e show ?thesis by (intro conjI)
qed

subsection \<open>C3: a sharing link yields its name, anything else is returned unchanged\<close>

text \<open>
  C3. The pattern is matched with \<^verbatim>\<open>re.search\<close>. An input that is a sharing link (an
  optional \<^verbatim>\<open>http://\<close> or \<^verbatim>\<open>https://\<close>, then \<^verbatim>\<open>t.me/addemoji/\<close>, then a non-empty
  name of letters, digits and underscores) yields exactly the name. Whenever the pattern
  matches, that is whenever the input holds \<^verbatim>\<open>t.me/addemoji/\<close> followed by a name
  character, the value returned is a captured name segment: a non-empty run of name
  characters that follows \<^verbatim>\<open>t.me/addemoji/\<close> in the input and ends where the input ends or
  at a character outside the class. An input the pattern does not match is returned
  unchanged. The two examples of the specification hold.
\<close>

theorem extract_pack_name_link_or_identity:
  "(scheme \<in> {[], ''http://'', ''https://''} \<and> g \<noteq> [] \<and> list_all name_char g \<longrightarrow>
      extract_pack_name (scheme @ ''t.me/addemoji/'' @ g) = g)
   \<and> ((\<exists>p c r. s = p @ ''t.me/addemoji/'' @ c # r \<and> name_char c) \<longrightarrow>
        (\<exists>p post. s = p @ ''t.me/addemoji/'' @ extract_pack_name s @ post
           \<and> extract_pack_name s \<noteq> [] \<and> list_all name_char (extract_pack_name s)
           \<and> (post = [] \<or> \<not> name_char (hd post))))
   \<and> (\<not> (\<exists>p c r. s = p @ ''t.me/addemoji/'' @ c # r \<and> name_char c) \<longrightarrow> extract_pack_name s = s)
   \<and> extract_pack_name ''https://t.me/addemoji/foo_bar'' = ''foo_bar''
   \<and> extract_pack_name ''foo_bar'' = ''foo_bar''"
proof (intro conjI impI)
  assume "scheme \<in> {[], ''http://'', ''https://''} \<and> g \<noteq> [] \<and> list_all name_char g"
  then show "extract_pack_name (scheme @ ''t.me/addemoji/'' @ g) = g"
    using extract_pack_name_whole_link by blast
next
  assume "\<exists>p c r. s = p @ ''t.me/addemoji/'' @ c # r \<and> name_char c"
  then show "\<exists>p post. s = p @ ''t.me/addemoji/'' @ extract_pack_name s @ post
           \<and> extract_pack_name s \<noteq> [] \<and> list_all name_char (extract_pack_name s)
           \<and> (post = [] \<or> \<not> name_char (hd post))"
    by (rule extract_pack_name_segment)
next
  assume "\<not> (\<exists>p c r. s = p @ ''t.me/addemoji/'' @ c # r \<and> name_char c)"
  then show "extract_pack_name s = s" by (rule extract_pack_name_no_link)
next
  show "extract_pack_name ''https://t.me/addemoji/foo_bar'' = ''foo_bar''"
    by (simp add: extract_pack_name_def match_at_def match_name_def name_char_def)
next
  show "extract_pack_name ''foo_bar'' = ''foo_bar''"
    by (simp add: extract_pack_name_def match_at_def match_name_def name_char_def)
qed

theorem extract_pack_name_link_or_identity_witness:
  "extract_pack_name ''http://t.me/addemoji/Ab_9'' = ''Ab_9''
   \<and> (\<exists>p post. ''join t.me/addemoji/x1-now'' = p @ ''t.me/addemoji/'' @ extract_pack_name ''join t.me/addemoji/x1-now'' @ post
          \<and> extract_pack_name ''join t.me/addemoji/x1-now'' \<noteq> []
          \<and> list_all name_char (extract_pack_name ''join t.me/addemoji/x1-now'')
          \<and> (post = [] \<or> \<not> name_char (hd post)))
   \<and> extract_pack_name ''plain_name'' = ''plain_name''"
proof -
  have 1: "''http://'' \<in> {[], ''http://'', ''https://''} \<and> ''Ab_9'' \<noteq> [] \<and> list_all name_char ''Ab_9''"
    by (simp add: name_char_def)
  have a: "extract_pack_name (''http://'' @ ''t.me/addemoji/'' @ ''Ab_9'') = ''Ab_9''"
    by (rule mp [OF conjunct1 [OF extract_pack_name_link_or_identity] 1])
  have "''join t.me/addemoji/x1-now'' = ''join '' @ ''t.me/addemoji/'' @ CHR ''x'' # ''1-now'' \<and> name_char CHR ''x''"
    by (simp add: name_char_def)
  then have 2: "\<exists>p c r. ''join t.me/addemoji/x1-now'' = p @ ''t.me/addemoji/'' @ c # r \<and> name_char c"
    by (intro exI)
  have b: "\<exists>p post. ''join t.me/addemoji/x1-now'' = p @ ''t.me/addemoji/'' @ extract_pack_name ''join t.me/addemoji/x1-now'' @ post
           \<and> extract_pack_name ''join t.me/addemoji/x1-now'' \<noteq> []
           \<and> list_all name_char (extract_pack_name ''join t.me/addemoji/x1-now'')
           \<and> (post = [] \<or> \<not> name_char (hd post))"
    by (rule mp [OF conjunct1 [OF conjunct2 [OF extract_pack_name_link_or_identity]] 2])
  have 3: "\<not> (\<exists>p c r. ''plain_name'' = p @ ''t.me/addemoji/'' @ c # r \<and> name_char c)"
    by (rule no_dot_no_link) simp
  have c: "extract_pack_name ''plain_name'' = ''plain_name''"
    by (rule mp [OF conjunct1 [OF conjunct2 [OF conjunct2 [OF extract_pack_name_link_or_identity]]] 3])
  from a have a': "extract_pack_name ''http://t.me/addemoji/Ab_9'' = ''Ab_9''" by simp
  from a' b c show ?thesis by (intro conjI)
qed

subsection \<open>C4: the format of an item\<close>

text \<open>
  C4. \<^verbatim>\<open>sticker_to_emoji_data\<close> is a function of the sticker record and the URL alone (it
  takes no trace and issues no request), so equal arguments give equal items. The item's
  \<^verbatim>\<open>file_type\<close> is \<^verbatim>\<open>tgs\<close> when \<^verbatim>\<open>is_animated\<close> is true, else \<^verbatim>\<open>webm\<close> when
  \<^verbatim>\<open>is_video\<close> is true, else \<^verbatim>\<open>png\<close>; a missing flag counts as false. The four
  combinations of the two booleans are spelled out.
\<close>

theorem sticker_to_emoji_data_format:
  "file_type (sticker_to_emoji_data s u) =
     (if truthy (st_is_animated s) then ''tgs''
      else if truthy (st_is_video s) then ''webm'' else ''png'')
   \<and> (st_is_animated s = Some True \<and> st_is_video s = Some True \<longrightarrow>
        file_type (sticker_to_emoji_data s u) = ''tgs'')
   \<and> (st_is_animated s = Some True \<and> st_is_video s = Some False \<longrightarrow>
        file_type (sticker_to_emoji_data s u) = ''tgs'')
   \<and> (st_is_animated s = Some False \<and> st_is_video s = Some True \<longrightarrow>
        file_type (sticker_to_emoji_data s u) = ''webm'')
   \<and> (st_is_animated s = Some False \<and> st_is_video s = Some False \<longrightarrow>
        file_type (sticker_to_emoji_data s u) = ''png'')
   \<and> (s = s' \<and> u = u' \<longrightarrow> sticker_to_emoji_data s u = sticker_to_emoji_data s' u')"
  by (simp add: sticker_to_emoji_data_def truthy_def)

theorem sticker_to_emoji_data_format_witness:
  "file_type (sticker_to_emoji_data (demo_sticker\<lparr>st_is_animated := Some True, st_is_video := Some True\<rparr>) ''u'') = ''tgs''
   \<and> file_type (sticker_to_emoji_data (demo_sticker\<lparr>st_is_animated := Some True, st_is_video := Some False\<rparr>) ''u'') = ''tgs''
   \<and> file_type (sticker_to_emoji_data (demo_sticker\<lparr>st_is_animated := Some False, st_is_video := Some True\<rparr>) ''u'') = ''webm''
   \<and> file_type (sticker_to_emoji_data (demo_sticker\<lparr>st_is_animated := Some False, st_is_video := Some False\<rparr>) ''u'') = ''png''"
proof (intro conjI)
  show "file_type (sticker_to_emoji_data (demo_sticker\<lparr>st_is_animated := Some True, st_is_video := Some True\<rparr>) ''u'') = ''tgs''"
    by (rule mp [OF conjunct1 [OF conjunct2 [OF sticker_to_emoji_data_format]]]) simp
  show "file_type (sticker_to_emoji_data (demo_sticker\<lparr>st_is_animated := Some True, st_is_video := Some False\<rparr>) ''u'') = ''tgs''"
    by (rule mp [OF conjunct1 [OF conjunct2 [OF conjunct2 [OF sticker_to_emoji_data_format]]]]) simp
  show "file_type (sticker_to_emoji_data (demo_sticker\<lparr>st_is_animated := Some False, st_is_video := Some True\<rparr>) ''u'') = ''webm''"
    by (rule mp [OF conjunct1 [OF conjunct2 [OF conjunct2 [OF conjunct2 [OF sticker_to_emoji_data_format]]]]]) simp
  show "file_type (sticker_to_emoji_data (demo_sticker\<lparr>st_is_animated := Some False, st_is_video := Some False\<rparr>) ''u'') = ''png''"
    by (rule mp [OF conjunct1 [OF conjunct2 [OF conjunct2 [OF conjunct2 [OF conjunct2 [OF sticker_to_emoji_data_format]]]]]]) simp
qed

subsection \<open>C5: not found exactly when the lookup comes back absent or empty\<close>

text \<open>
  C5. With a configured client, \<^verbatim>\<open>get_pack\<close> fails exactly when the pack fetched under the
  normalised name is absent or empty (\<^verbatim>\<open>not sticker_set\<close>: \<^verbatim>\<open>None\<close>, or a record without
  any key), and the failure is then the 404 exception whose detail is
  \<^verbatim>\<open>Pack not found: \<close> followed by the normalised name. \<^verbatim>\<open>get_emoji\<close> looks up the
  one-element batch \<^verbatim>\<open>[emoji_id]\<close>; it fails exactly when the batch comes back empty, with
  the 404 exception whose detail is \<^verbatim>\<open>Emoji not found: \<close> followed by the id; otherwise
  it resolves the file of the first record returned and answers with that record mapped.
\<close>

theorem not_found_iff_absent_or_empty:
  "(fst (get_pack (Some api) url tr)
       = Inl (HTTPException 404 (''Pack not found: '' @ extract_pack_name url))
     \<longleftrightarrow> (\<exists>r. fst (get_sticker_set api (extract_pack_name url) tr) = Inr r \<and> not_sticker_set r))
   \<and> ((\<exists>e. fst (get_pack (Some api) url tr) = Inl e)
     \<longleftrightarrow> (\<exists>r. fst (get_sticker_set api (extract_pack_name url) tr) = Inr r \<and> not_sticker_set r))
   \<and> (fst (get_emoji (Some api) emoji_id tr)
       = Inl (HTTPException 404 (''Emoji not found: '' @ emoji_id))
     \<longleftrightarrow> fst (get_custom_emoji_stickers api [emoji_id] tr) = Inr [])
   \<and> ((\<exists>e. fst (get_emoji (Some api) emoji_id tr) = Inl e)
     \<longleftrightarrow> fst (get_custom_emoji_stickers api [emoji_id] tr) = Inr [])
   \<and> (fst (get_custom_emoji_stickers api [emoji_id] tr) = Inr (s # rest)
       \<and> fst (get_file api (st_file_id s) (tr @ [GetCustomEmojiStickers [emoji_id]])) = Inr r \<longrightarrow>
       get_emoji (Some api) emoji_id tr
         = (Inr (sticker_to_emoji_data s (get_or r [])),
            tr @ [GetCustomEmojiStickers [emoji_id], GetFile (st_file_id s)]))"
proof (intro conjI)
  show "fst (get_pack (Some api) url tr)
       = Inl (HTTPException 404 (''Pack not found: '' @ extract_pack_name url))
     \<longleftrightarrow> (\<exists>r. fst (get_sticker_set api (extract_pack_name url) tr) = Inr r \<and> not_sticker_set r)"
    unfolding get_pack_Some
    by (simp add: get_sticker_set_Inr not_sticker_set_def split: sum.splits option.splits)
  show "(\<exists>e. fst (get_pack (Some api) url tr) = Inl e)
     \<longleftrightarrow> (\<exists>r. fst (get_sticker_set api (extract_pack_name url) tr) = Inr r \<and> not_sticker_set r)"
    unfolding get_pack_Some
    by (simp add: get_sticker_set_Inr not_sticker_set_def split: sum.splits option.splits)
  show "fst (get_emoji (Some api) emoji_id tr)
       = Inl (HTTPException 404 (''Emoji not found: '' @ emoji_id))
     \<longleftrightarrow> fst (get_custom_emoji_stickers api [emoji_id] tr) = Inr []"
    unfolding get_emoji_Some
    by (simp add: get_custom_emoji_stickers_Inr split: sum.splits list.splits)
  show "(\<exists>e. fst (get_emoji (Some api) emoji_id tr) = Inl e)
     \<longleftrightarrow> fst (get_custom_emoji_stickers api [emoji_id] tr) = Inr []"
    unfolding get_emoji_Some
    by (simp add: get_custom_emoji_stickers_Inr split: sum.splits list.splits)
  show "fst (get_custom_emoji_stickers api [emoji_id] tr) = Inr (s # rest)
       \<and> fst (get_file api (st_file_id s) (tr @ [GetCustomEmojiStickers [emoji_id]])) = Inr r \<longrightarrow>
       get_emoji (Some api) emoji_id tr
         = (Inr (sticker_to_emoji_data s (get_or r [])),
            tr @ [GetCustomEmojiStickers [emoji_id], GetFile (st_file_id s)])"
    unfolding get_emoji_Some
    by (simp add: file_call_def)
qed

theorem not_found_iff_absent_or_empty_witness:
  "fst (get_pack (Some demo_api) ''unknownpack'' []) = Inl (HTTPException 404 ''Pack not found: unknownpack'')
   \<and> fst (get_emoji (Some demo_api) ''12345'' []) = Inl (HTTPException 404 ''Emoji not found: 12345'')
   \<and> get_emoji (Some demo_api) ''5368324170671202286'' [] =
       (Inr (sticker_to_emoji_data demo_sticker ''https://api.telegram.org/file/bot123:ABC/stickers/f1.tgs''),
        [GetCustomEmojiStickers [''5368324170671202286''], GetFile (Some ''F1'')])"
proof -
  note t = not_found_iff_absent_or_empty
  have p: "\<exists>r. fst (get_sticker_set demo_api (extract_pack_name ''unknownpack'') []) = Inr r \<and> not_sticker_set r"
    by (simp add: extract_plain get_sticker_set_Inr demo_api_def demo_transport_def not_sticker_set_def)
  have a: "fst (get_pack (Some demo_api) ''unknownpack'' [])
             = Inl (HTTPException 404 (''Pack not found: '' @ extract_pack_name ''unknownpack''))"
    by (rule iffD2 [OF conjunct1 [OF t] p])
  have e: "fst (get_custom_emoji_stickers demo_api [''12345''] []) = Inr []"
    by (simp add: get_custom_emoji_stickers_Inr demo_api_def demo_transport_def)
  have b: "fst (get_emoji (Some demo_api) ''12345'' []) = Inl (HTTPException 404 (''Emoji not found: '' @ ''12345''))"
    by (rule iffD2 [OF conjunct1 [OF conjunct2 [OF conjunct2 [OF t]]] e])
  have s: "fst (get_custom_emoji_stickers demo_api [''5368324170671202286''] []) = Inr (demo_sticker # [])
      \<and> fst (get_file demo_api (st_file_id demo_sticker) ([] @ [GetCustomEmojiStickers [''5368324170671202286'']]))
          = Inr (Some ''https://api.telegram.org/file/bot123:ABC/stickers/f1.tgs'')"
    by (simp add: get_custom_emoji_stickers_Inr get_file_Inr demo_api_def demo_transport_def
        demo_sticker_def file_download_url_def)
  have c: "get_emoji (Some demo_api) ''5368324170671202286'' [] =
       (Inr (sticker_to_emoji_data demo_sticker
               (get_or (Some ''https://api.telegram.org/file/bot123:ABC/stickers/f1.tgs'') [])),
        [] @ [GetCustomEmojiStickers [''5368324170671202286''], GetFile (st_file_id demo_sticker)])"
    by (rule mp [OF conjunct2 [OF conjunct2 [OF conjunct2 [OF conjunct2 [OF t]]]] s])
  from a b c show ?thesis
    by (simp add: extract_plain get_or_def demo_sticker_def)
qed

subsection \<open>C6: no credential, no request\<close>

text \<open>
  C6. With an empty \<^verbatim>\<open>BOT_TOKEN\<close> no client is created, and without a client each of
  \<^verbatim>\<open>get_pack\<close>, \<^verbatim>\<open>get_emoji\<close> and \<^verbatim>\<open>get_manifest\<close> raises the 503 exception and
  leaves the trace of requests as it found it: no request is issued.
\<close>

theorem not_configured_no_call:
  "lifespan [] transport = None
   \<and> get_pack None url tr = (Inl (HTTPException 503 ''Telegram API not configured''), tr)
   \<and> get_emoji None emoji_id tr = (Inl (HTTPException 503 ''Telegram API not configured''), tr)
   \<and> get_manifest None pack_id tr = (Inl (HTTPException 503 ''Telegram API not configured''), tr)"
  by (simp add: lifespan_def get_pack_def get_emoji_def get_manifest_def)

theorem not_configured_no_call_witness:
  "get_pack (lifespan [] demo_transport) ''demo'' [] = (Inl (HTTPException 503 ''Telegram API not configured''), [])
   \<and> get_emoji (lifespan [] demo_transport) ''12345'' [] = (Inl (HTTPException 503 ''Telegram API not configured''), [])
   \<and> get_manifest (lifespan [] demo_transport) ''demo'' [] = (Inl (HTTPException 503 ''Telegram API not configured''), [])"
  using not_configured_no_call [of demo_transport "''demo''" "[]" "''12345''" "''demo''"]
  by simp

subsection \<open>C7: resolving a file location\<close>

text \<open>
  C7. \<^verbatim>\<open>get_file\<close> issues one \<^verbatim>\<open>getFile\<close> request. When the reply reports success and
  carries a path token (a \<^verbatim>\<open>file_path\<close> that passes the truth test \<^verbatim>\<open>if file_path\<close>, that
  is a non-empty string), the result is the template
  \<^verbatim>\<open>https://api.telegram.org/file/bot<token>/<file_path>\<close> filled with the credential and
  the token. The result is \<^verbatim>\<open>None\<close> when the lookup fails, when the reply has no
  \<^verbatim>\<open>result\<close>, and when the token is missing (no \<^verbatim>\<open>file_path\<close> key, or an empty one).
\<close>

theorem get_file_two_step:
  "(getFile (client api) tr file_id = Data True (Some f) \<and> tf_file_path f = Some p \<and> p \<noteq> [] \<longrightarrow>
      get_file api file_id tr =
        (Inr (Some (''https://api.telegram.org/file/bot'' @ token api @ ''/'' @ p)), tr @ [GetFile file_id]))
   \<and> (failed (getFile (client api) tr file_id) \<longrightarrow>
        get_file api file_id tr = (Inr None, tr @ [GetFile file_id]))
   \<and> (getFile (client api) tr file_id = Data True None \<longrightarrow>
        get_file api file_id tr = (Inr None, tr @ [GetFile file_id]))
   \<and> (getFile (client api) tr file_id = Data True (Some f)
        \<and> (tf_file_path f = None \<or> tf_file_path f = Some []) \<longrightarrow>
        get_file api file_id tr = (Inr None, tr @ [GetFile file_id]))"
  by (cases "getFile (client api) tr file_id")
     (auto simp: get_file_Inr file_download_url_def)

theorem get_file_two_step_witness:
  "get_file demo_api (Some ''F1'') [] =
     (Inr (Some ''https://api.telegram.org/file/bot123:ABC/stickers/f1.tgs''), [GetFile (Some ''F1'')])
   \<and> get_file offline_api (Some ''F1'') [] = (Inr None, [GetFile (Some ''F1'')])"
proof (intro conjI)
  have h: "getFile (client demo_api) [] (Some ''F1'') = Data True (Some \<lparr> tf_file_path = Some ''stickers/f1.tgs'' \<rparr>)
      \<and> tf_file_path \<lparr> tf_file_path = Some ''stickers/f1.tgs'' \<rparr> = Some ''stickers/f1.tgs''
      \<and> ''stickers/f1.tgs'' \<noteq> []"
    by (simp add: demo_api_def demo_transport_def)
  have "get_file demo_api (Some ''F1'') [] =
     (Inr (Some (''https://api.telegram.org/file/bot'' @ token demo_api @ ''/'' @ ''stickers/f1.tgs'')),
      [] @ [GetFile (Some ''F1'')])"
    by (rule mp [OF conjunct1 [OF get_file_two_step] h])
  then show "get_file demo_api (Some ''F1'') [] =
     (Inr (Some ''https://api.telegram.org/file/bot123:ABC/stickers/f1.tgs''), [GetFile (Some ''F1'')])"
    by (simp add: demo_api_def)
  have f: "failed (getFile (client offline_api) [] (Some ''F1''))"
    by (simp add: offline_api_def)
  have "get_file offline_api (Some ''F1'') [] = (Inr None, [] @ [GetFile (Some ''F1'')])"
    by (rule mp [OF conjunct1 [OF conjunct2 [OF get_file_two_step]] f])
  then show "get_file offline_api (Some ''F1'') [] = (Inr None, [GetFile (Some ''F1'')])"
    by simp
qed

subsection \<open>C8: the manifest is the pack without normalisation and without thumbnail\<close>

text \<open>
  C8. \<^verbatim>\<open>get_pack\<close> is \<^verbatim>\<open>get_pack_named\<close> applied to the normalised input. \<^verbatim>\<open>get_manifest\<close>
  is \<^verbatim>\<open>get_pack_named\<close> applied to its identifier as it is, for every identifier, link or
  not, with the \<^verbatim>\<open>thumbnail\<close> of a resulting pack set to \<^verbatim>\<open>None\<close>: started from the same
  trace against the same service it issues the same requests, fails with the same exception
  or succeeds with the same name, title, sticker type and item list. These are the only two
  differences. In particular the first request of \<^verbatim>\<open>get_manifest\<close> carries the identifier
  unchanged where that of \<^verbatim>\<open>get_pack\<close> carries the extracted name; \<^verbatim>\<open>get_manifest\<close> on the
  name extracted from an input is \<^verbatim>\<open>get_pack\<close> on that input up to the thumbnail; and the
  two agree up to the thumbnail on every identifier that normalisation leaves unchanged.
\<close>

theorem manifest_is_pack_without_thumbnail:
  "get_pack telegram_api url tr = get_pack_named telegram_api (extract_pack_name url) tr
   \<and> get_manifest telegram_api pack_id tr =
        (map_sum id (\<lambda>p. p\<lparr>thumbnail := None\<rparr>) (fst (get_pack_named telegram_api pack_id tr)),
         snd (get_pack_named telegram_api pack_id tr))
   \<and> take (Suc (length tr)) (snd (get_manifest (Some api) pack_id tr)) = tr @ [GetStickerSet pack_id]
   \<and> take (Suc (length tr)) (snd (get_pack (Some api) url tr))
        = tr @ [GetStickerSet (extract_pack_name url)]
   \<and> get_manifest telegram_api (extract_pack_name url) tr =
        (map_sum id (\<lambda>p. p\<lparr>thumbnail := None\<rparr>) (fst (get_pack telegram_api url tr)),
         snd (get_pack telegram_api url tr))
   \<and> (extract_pack_name pack_id = pack_id \<longrightarrow>
        get_manifest telegram_api pack_id tr =
          (map_sum id (\<lambda>p. p\<lparr>thumbnail := None\<rparr>) (fst (get_pack telegram_api pack_id tr)),
           snd (get_pack telegram_api pack_id tr)))
   \<and> (fst (get_pack telegram_api url tr) = Inr p \<longrightarrow>
        (\<exists>m. fst (get_manifest telegram_api (extract_pack_name url) tr) = Inr m
           \<and> name m = name p \<and> title m = title p \<and> sticker_type m = sticker_type p
           \<and> stickers m = stickers p \<and> thumbnail m = None))"
proof -
  have eq: "\<And>u. get_manifest telegram_api (extract_pack_name u) tr =
     (map_sum id (\<lambda>p. p\<lparr>thumbnail := None\<rparr>) (fst (get_pack telegram_api u tr)),
      snd (get_pack telegram_api u tr))"
    by (simp add: get_manifest_named get_pack_named_eq)
  have c: "extract_pack_name pack_id = pack_id \<longrightarrow>
        get_manifest telegram_api pack_id tr =
          (map_sum id (\<lambda>p. p\<lparr>thumbnail := None\<rparr>) (fst (get_pack telegram_api pack_id tr)),
           snd (get_pack telegram_api pack_id tr))"
  proof
    assume e: "extract_pack_name pack_id = pack_id"
    from eq [of pack_id] show "get_manifest telegram_api pack_id tr =
          (map_sum id (\<lambda>p. p\<lparr>thumbnail := None\<rparr>) (fst (get_pack telegram_api pack_id tr)),
           snd (get_pack telegram_api pack_id tr))"
      unfolding e .
  qed
  have f: "fst (get_pack telegram_api url tr) = Inr p \<longrightarrow>
        (\<exists>m. fst (get_manifest telegram_api (extract_pack_name url) tr) = Inr m
           \<and> name m = name p \<and> title m = title p \<and> sticker_type m = sticker_type p
           \<and> stickers m = stickers p \<and> thumbnail m = None)"
    by (simp add: eq [of url])
  from get_pack_named_eq [of telegram_api url tr] get_manifest_named [of telegram_api pack_id tr]
    get_manifest_first_request [of tr api pack_id] get_pack_first_request [of tr api url]
    eq [of url] c f
  show ?thesis by (intro conjI)
qed

theorem manifest_is_pack_without_thumbnail_witness:
  "get_manifest (Some demo_api) ''demo'' [] =
     (map_sum id (\<lambda>p. p\<lparr>thumbnail := None\<rparr>)
        (fst (get_pack (Some demo_api) ''https://t.me/addemoji/demo'' [])),
      snd (get_pack (Some demo_api) ''https://t.me/addemoji/demo'' []))
   \<and> get_manifest (Some demo_api) ''demo'' [] =
     (map_sum id (\<lambda>p. p\<lparr>thumbnail := None\<rparr>) (fst (get_pack (Some demo_api) ''demo'' [])),
      snd (get_pack (Some demo_api) ''demo'' []))
   \<and> get_manifest (Some demo_api) ''https://t.me/addemoji/demo'' [] =
       (Inl (HTTPException 404 ''Pack not found: https://t.me/addemoji/demo''),
        [GetStickerSet ''https://t.me/addemoji/demo''])
   \<and> take 1 (snd (get_pack (Some demo_api) ''https://t.me/addemoji/demo'' [])) = [GetStickerSet ''demo'']"
proof (intro conjI)
  note t = manifest_is_pack_without_thumbnail
  show "get_manifest (Some demo_api) ''demo'' [] =
     (map_sum id (\<lambda>p. p\<lparr>thumbnail := None\<rparr>)
        (fst (get_pack (Some demo_api) ''https://t.me/addemoji/demo'' [])),
      snd (get_pack (Some demo_api) ''https://t.me/addemoji/demo'' []))"
    using conjunct1 [OF conjunct2 [OF conjunct2 [OF conjunct2 [OF conjunct2 [OF t
        [of "Some demo_api" "''https://t.me/addemoji/demo''" "[]"]]]]]]
    unfolding extract_demo_link .
  show "get_manifest (Some demo_api) ''demo'' [] =
     (map_sum id (\<lambda>p. p\<lparr>thumbnail := None\<rparr>) (fst (get_pack (Some demo_api) ''demo'' [])),
      snd (get_pack (Some demo_api) ''demo'' []))"
    by (rule mp [OF conjunct1 [OF conjunct2 [OF conjunct2 [OF conjunct2 [OF conjunct2 [OF conjunct2 [OF t]]]]]]])
       (rule extract_plain(1))
  have n: "get_pack_named (Some demo_api) ''https://t.me/addemoji/demo'' [] =
       (Inl (HTTPException 404 ''Pack not found: https://t.me/addemoji/demo''),
        [GetStickerSet ''https://t.me/addemoji/demo''])"
    by (simp add: get_pack_named_def get_sticker_set_Inr demo_api_def demo_transport_def
        not_sticker_set_def)
  from conjunct1 [OF conjunct2 [OF t [where telegram_api = "Some demo_api"
        and pack_id = "''https://t.me/addemoji/demo''" and tr = "[]"]]]
  show "get_manifest (Some demo_api) ''https://t.me/addemoji/demo'' [] =
       (Inl (HTTPException 404 ''Pack not found: https://t.me/addemoji/demo''),
        [GetStickerSet ''https://t.me/addemoji/demo''])"
    by (simp add: n)
  from conjunct1 [OF conjunct2 [OF conjunct2 [OF conjunct2 [OF t [where api = demo_api
        and url = "''https://t.me/addemoji/demo''" and tr = "[]"]]]]]
  show "take 1 (snd (get_pack (Some demo_api) ''https://t.me/addemoji/demo'' [])) = [GetStickerSet ''demo'']"
    by (simp add: extract_demo_link)
qed

subsection \<open>C9: the short name\<close>

text \<open>
  C9 as stated, the short name being the pack name directly followed by the first 8
  characters of the unique file identifier, fails: for the pack name \<^verbatim>\<open>pack\<close> and the
  identifier \<^verbatim>\<open>AgADBAADb6cxGw\<close> the short name is not \<^verbatim>\<open>packAgADBAAD\<close>.
\<close>

theorem short_name_plain_concatenation_counterexample:
  "short_name (sticker_to_emoji_data demo_sticker ''u'') \<noteq> ''pack'' @ take 8 ''AgADBAADb6cxGw''"
  by (simp add: sticker_to_emoji_data_def demo_sticker_def get_or_def)

text \<open>
  C9, amended. The short name is the pack name (or \<^verbatim>\<open>emoji\<close> when the record has none),
  an underscore, and the first 8 characters of the unique file identifier (all of it when
  shorter, nothing when the record has none).
\<close>

theorem short_name_joined_by_underscore:
  "short_name (sticker_to_emoji_data s u) =
     (case st_set_name s of None \<Rightarrow> ''emoji'' | Some n \<Rightarrow> n) @ ''_''
       @ take 8 (case st_file_unique_id s of None \<Rightarrow> [] | Some f \<Rightarrow> f)"
  by (simp add: sticker_to_emoji_data_def get_or_def)

theorem short_name_joined_by_underscore_witness:
  "short_name (sticker_to_emoji_data demo_sticker ''u'') = ''pack_AgADBAAD''
   \<and> short_name (sticker_to_emoji_data demo_sticker2 ''u'') = ''emoji_xyz''"
  using short_name_joined_by_underscore [of demo_sticker "''u''"]
    short_name_joined_by_underscore [of demo_sticker2 "''u''"]
  by (simp add: demo_sticker_def demo_sticker2_def)

subsection \<open>C10: the link is searched for anywhere in the input\<close>

text \<open>
  C10. If the input holds \<^verbatim>\<open>t.me/addemoji/\<close> followed by a name character anywhere,
  whatever text surrounds it, \<^verbatim>\<open>extract_pack_name\<close> returns the name captured at the
  leftmost such place, that is the longest run of name characters following it there, and
  the value returned differs from the input. Only an input that holds no such place is
  returned unchanged.
\<close>

theorem extract_pack_name_searches_anywhere:
  "(s = pre @ ''t.me/addemoji/'' @ g @ post \<and> g \<noteq> [] \<and> list_all name_char g
      \<and> (post = [] \<or> \<not> name_char (hd post))
      \<and> \<not> (\<exists>p c r. length p < length pre \<and> s = p @ ''t.me/addemoji/'' @ c # r \<and> name_char c)
      \<longrightarrow> extract_pack_name s = g)
   \<and> ((\<exists>p c r. s = p @ ''t.me/addemoji/'' @ c # r \<and> name_char c) \<longrightarrow> extract_pack_name s \<noteq> s)
   \<and> (\<not> (\<exists>p c r. s = p @ ''t.me/addemoji/'' @ c # r \<and> name_char c) \<longrightarrow> extract_pack_name s = s)"
proof (intro conjI impI)
  assume h: "s = pre @ ''t.me/addemoji/'' @ g @ post \<and> g \<noteq> [] \<and> list_all name_char g
      \<and> (post = [] \<or> \<not> name_char (hd post))
      \<and> \<not> (\<exists>p c r. length p < length pre \<and> s = p @ ''t.me/addemoji/'' @ c # r \<and> name_char c)"
  then have 1: "s = pre @ ''t.me/addemoji/'' @ g @ post" by (elim conjE)
  from h have 2: "g \<noteq> []" by (elim conjE)
  from h have 3: "list_all name_char g" by (elim conjE)
  from h have 4: "post = [] \<or> \<not> name_char (hd post)" by (elim conjE)
  from h have 5: "\<not> (\<exists>p c r. length p < length pre \<and> s = p @ ''t.me/addemoji/'' @ c # r \<and> name_char c)"
    by (elim conjE)
  from 1 2 3 4 5
  show "extract_pack_name s = g" by (rule extract_pack_name_leftmost)
next
  assume "\<exists>p c r. s = p @ ''t.me/addemoji/'' @ c # r \<and> name_char c"
  then show "extract_pack_name s \<noteq> s" by (rule extract_pack_name_changes)
next
  assume "\<not> (\<exists>p c r. s = p @ ''t.me/addemoji/'' @ c # r \<and> name_char c)"
  then show "extract_pack_name s = s" by (rule extract_pack_name_no_link)
qed

theorem extract_pack_name_searches_anywhere_witness:
  "extract_pack_name ''see https://t.me/addemoji/foo_bar now, not t.me/addemoji/other'' = ''foo_bar''
   \<and> extract_pack_name ''see https://t.me/addemoji/foo_bar now, not t.me/addemoji/other''
        \<noteq> ''see https://t.me/addemoji/foo_bar now, not t.me/addemoji/other''
   \<and> extract_pack_name ''plain_name'' = ''plain_name''"
proof -
  let ?s = "''see https://t.me/addemoji/foo_bar now, not t.me/addemoji/other''"
  have 1: "?s = ''see https://'' @ ''t.me/addemoji/'' @ ''foo_bar'' @ '' now, not t.me/addemoji/other''"
    by simp
  have 2: "list_all name_char ''foo_bar''" by (simp add: name_char_def)
  have 3: "\<not> name_char (hd '' now, not t.me/addemoji/other'')" by (simp add: name_char_def)
  have 4: "\<not> (\<exists>p c r. length p < length ''see https://'' \<and> ?s = p @ ''t.me/addemoji/'' @ c # r \<and> name_char c)"
    unfolding early_link_iff by code_simp
  have "?s = ''see https://'' @ ''t.me/addemoji/'' @ CHR ''f'' # ''oo_bar now, not t.me/addemoji/other'' \<and> name_char CHR ''f''"
    by (simp add: name_char_def)
  then have 5: "\<exists>p c r. ?s = p @ ''t.me/addemoji/'' @ c # r \<and> name_char c"
    by (intro exI)
  have 6: "\<not> (\<exists>p c r. ''plain_name'' = p @ ''t.me/addemoji/'' @ c # r \<and> name_char c)"
    by (rule no_dot_no_link) simp
  have "''foo_bar'' \<noteq> []" by simp
  with 1 2 3 4 have hyp:
    "?s = ''see https://'' @ ''t.me/addemoji/'' @ ''foo_bar'' @ '' now, not t.me/addemoji/other''
     \<and> ''foo_bar'' \<noteq> [] \<and> list_all name_char ''foo_bar''
     \<and> ('' now, not t.me/addemoji/other'' = [] \<or> \<not> name_char (hd '' now, not t.me/addemoji/other''))
     \<and> \<not> (\<exists>p c r. length p < length ''see https://'' \<and> ?s = p @ ''t.me/addemoji/'' @ c # r \<and> name_char c)"
    by (intro conjI disjI2)
  have a: "extract_pack_name ?s = ''foo_bar''"
    by (rule mp [OF conjunct1 [OF extract_pack_name_searches_anywhere [of ?s "''see https://''" "''foo_bar''" "'' now, not t.me/addemoji/other''"]] hyp])
  have b: "extract_pack_name ?s \<noteq> ?s"
    by (rule mp [OF conjunct1 [OF conjunct2 [OF extract_pack_name_searches_anywhere [of ?s]]] 5])
  have c: "extract_pack_name ''plain_name'' = ''plain_name''"
    by (rule mp [OF conjunct2 [OF conjunct2 [OF extract_pack_name_searches_anywhere [of "''plain_name''"]]] 6])
  from a b c show ?thesis by (intro conjI)
qed

end
